theory Spec2Isabelle
  imports Main "HOL-Library.AList"
begin

section \<open>Storage gateway and crash-safe move: a shallow embedding\<close>

text \<open>
  The development follows two source files: the storage repository
  (\<^verbatim>\<open>StorageRepository\<close>: path classification, dispatch to the local filesystem or to an
  S3-compatible object store) and the storage core (\<^verbatim>\<open>StorageCore.moveFile\<close>: the move
  protocol built on the repository and on a durable store of move intents).
\<close>

subsection \<open>JavaScript string operations used by the code\<close>

text \<open>
  \<^verbatim>\<open>String.prototype.split\<close> with a one-character separator: the result is never empty,
  the empty string splits into one empty segment, and a trailing separator gives a trailing
  empty segment.
\<close>

fun str_split :: "char \<Rightarrow> string \<Rightarrow> string list" where
  "str_split c [] = [[]]"
| "str_split c (x # xs) =
     (if x = c then [] # str_split c xs
      else (case str_split c xs of
              p # ps \<Rightarrow> (x # p) # ps
            | [] \<Rightarrow> [[x]]))"

text \<open>\<^verbatim>\<open>Array.prototype.join\<close> with a one-character separator.\<close>

fun str_join :: "char \<Rightarrow> string list \<Rightarrow> string" where
  "str_join c [] = []"
| "str_join c [p] = p"
| "str_join c (p # q # ps) = p @ c # str_join c (q # ps)"

definition startsWith :: "string \<Rightarrow> string \<Rightarrow> bool" where
  "startsWith s p = (take (length p) s = p)"

definition endsWith :: "string \<Rightarrow> string \<Rightarrow> bool" where
  "endsWith s p = (length p \<le> length s \<and> drop (length s - length p) s = p)"

text \<open>\<^verbatim>\<open>includes\<close> is only ever called with a one-character needle.\<close>

definition str_includes :: "string \<Rightarrow> char \<Rightarrow> bool" where
  "str_includes s c = (c \<in> set s)"

subsection \<open>Path classification (\<^verbatim>\<open>StorageRepository\<close>)\<close>

record js_error =
  code :: "string option"
  message :: string

record ParsedCloudPath =
  host :: string
  bucket :: string
  key :: string

datatype CloudProvider = S3 | Azure | GCS | Unknown

text \<open>The message of a thrown \<^verbatim>\<open>new Error(msg)\<close>; such an error carries no \<^verbatim>\<open>code\<close>.\<close>

definition Error :: "string \<Rightarrow> js_error" where
  "Error msg = \<lparr>code = None, message = msg\<rparr>"

definition parseCloudPath :: "string \<Rightarrow> js_error + ParsedCloudPath" where
  "parseCloudPath filepath =
     (let parts = str_split CHR ''/'' filepath in
      if length parts < 3
      then Inl (Error (''Invalid cloud storage path format: '' @ filepath))
      else Inr \<lparr>host = parts ! 0, bucket = parts ! 1,
                key = str_join CHR ''/'' (drop 2 parts)\<rparr>)"

definition detectCloudProvider :: "string \<Rightarrow> CloudProvider" where
  "detectCloudProvider h =
     (if endsWith h ''.amazonaws.com'' then S3
      else if endsWith h ''.blob.core.windows.net'' then Azure
      else if h = ''storage.googleapis.com'' then GCS
      else S3)"

text \<open>
  The parameter is optional in the source (\<^verbatim>\<open>filepath?: string\<close>); every caller modelled
  here passes a string, and the test \<^verbatim>\<open>!filepath\<close> is then the test for the empty string.
\<close>

definition isCloudPath :: "string \<Rightarrow> bool" where
  "isCloudPath filepath =
     (if filepath = [] then False
      else if startsWith filepath ''/'' then False
      else (let parts = str_split CHR ''/'' filepath in
            if 3 \<le> length parts \<and> str_includes (parts ! 0) CHR ''.'' then True
            else False))"

definition isRemote :: "string \<Rightarrow> bool" where
  "isRemote filepath =
     (if filepath = [] \<or> \<not> isCloudPath filepath then False
      else (case parseCloudPath filepath of
              Inr p \<Rightarrow> detectCloudProvider (host p) = S3
            | Inl e \<Rightarrow> False))"

definition getS3BucketAndKey :: "string \<Rightarrow> js_error + string \<times> string" where
  "getS3BucketAndKey filepath =
     (case parseCloudPath filepath of
        Inl e \<Rightarrow> Inl e
      | Inr p \<Rightarrow> Inr (bucket p, key p))"

subsection \<open>Effects: asynchronous calls that may throw\<close>

text \<open>
  An \<^verbatim>\<open>async\<close> function is a state transformer that either returns a value or throws:
  \<open>Inl e\<close> is the rejection with error \<open>e\<close>. \<open>await m k\<close> is \<^verbatim>\<open>const x = await m; k(x)\<close>:
  a rejection of \<open>m\<close> skips \<open>k\<close>. \<open>try_catch m h\<close> is \<^verbatim>\<open>try { m } catch (e) { h(e) }\<close>.
\<close>

type_synonym ('s, 'a) io = "'s \<Rightarrow> (js_error + 'a) \<times> 's"

definition return :: "'a \<Rightarrow> ('s, 'a) io" where
  "return a s = (Inr a, s)"

definition throw :: "js_error \<Rightarrow> ('s, 'a) io" where
  "throw e s = (Inl e, s)"

definition await :: "('s, 'a) io \<Rightarrow> ('a \<Rightarrow> ('s, 'b) io) \<Rightarrow> ('s, 'b) io" where
  "await m k s = (case m s of (Inl e, s') \<Rightarrow> (Inl e, s') | (Inr a, s') \<Rightarrow> k a s')"

definition try_catch :: "('s, 'a) io \<Rightarrow> (js_error \<Rightarrow> ('s, 'a) io) \<Rightarrow> ('s, 'a) io" where
  "try_catch m h s = (case m s of (Inl e, s') \<Rightarrow> h e s' | (Inr a, s') \<Rightarrow> (Inr a, s'))"

text \<open>A synchronous computation that may throw (such as \<^verbatim>\<open>parseCloudPath\<close>), run in place.\<close>

definition lift :: "js_error + 'a \<Rightarrow> ('s, 'a) io" where
  "lift r s = (r, s)"

datatype log_level = Debug | Log | Warn | LogError | Fatal

subsection \<open>The storage repository over the operating system and the object store\<close>

text \<open>
  What the repository calls but does not implement is a parameter: the \<^verbatim>\<open>node:fs\<close> calls,
  \<^verbatim>\<open>S3Client.send\<close>, \<^verbatim>\<open>process.env\<close>, \<^verbatim>\<open>Date\<close>, \<^verbatim>\<open>os.tmpdir\<close> and \<^verbatim>\<open>path.join\<close>. They
  act on a world \<open>'w\<close> about which nothing is assumed, so every theorem below holds for
  every behaviour of the filesystem and of the network.
\<close>

record S3Client =
  region :: string
  accessKeyId :: string
  secretAccessKey :: string
  endpoint :: string

text \<open>
  The commands the modelled methods send: \<^verbatim>\<open>CopyObjectCommand\<close> with \<^verbatim>\<open>Bucket\<close>,
  \<^verbatim>\<open>CopySource\<close>, \<^verbatim>\<open>Key\<close> and, when the metadata is replaced, \<^verbatim>\<open>Metadata\<close>;
  \<^verbatim>\<open>DeleteObjectCommand\<close> and \<^verbatim>\<open>HeadObjectCommand\<close> with \<^verbatim>\<open>Bucket\<close> and \<^verbatim>\<open>Key\<close>.
\<close>

datatype S3Command =
    CopyObjectCommand string string string "(string \<times> string) list option"
  | DeleteObjectCommand string string
  | HeadObjectCommand string string

record S3Output =
  ContentLength :: "int option"
  LastModified :: "int option"
  Metadata :: "(string \<times> string) list option"

record Stats =
  stat_size :: int
  atime :: int
  mtime :: int
  birthtime :: int

datatype syscall =
    FsRename string string
  | FsCopyFile string string
  | FsAccess string nat
  | FsStat string
  | FsUtimes string int int
  | FsUnlink string
  | FsExistsSync string
  | FsMkdirSync string
  | S3Send S3Client S3Command

record 'w sys =
  fs_rename :: "string \<Rightarrow> string \<Rightarrow> 'w \<Rightarrow> (js_error + unit) \<times> 'w"
  fs_copyFile :: "string \<Rightarrow> string \<Rightarrow> 'w \<Rightarrow> (js_error + unit) \<times> 'w"
  fs_access :: "string \<Rightarrow> nat \<Rightarrow> 'w \<Rightarrow> (js_error + unit) \<times> 'w"
  fs_stat :: "string \<Rightarrow> 'w \<Rightarrow> (js_error + Stats) \<times> 'w"
  fs_utimes :: "string \<Rightarrow> int \<Rightarrow> int \<Rightarrow> 'w \<Rightarrow> (js_error + unit) \<times> 'w"
  fs_unlink :: "string \<Rightarrow> 'w \<Rightarrow> (js_error + unit) \<times> 'w"
  fs_existsSync :: "string \<Rightarrow> 'w \<Rightarrow> (js_error + bool) \<times> 'w"
  fs_mkdirSync :: "string \<Rightarrow> 'w \<Rightarrow> (js_error + unit) \<times> 'w"
  s3_send :: "S3Client \<Rightarrow> S3Command \<Rightarrow> 'w \<Rightarrow> (js_error + S3Output) \<times> 'w"
  process_env :: "string \<Rightarrow> 'w \<Rightarrow> string option"
  date_now :: "'w \<Rightarrow> nat"
  date_parse :: "string \<Rightarrow> int"
  toISOString :: "int \<Rightarrow> string"
  tmpdir :: string
  path_join :: "string \<Rightarrow> string \<Rightarrow> string"

text \<open>
  The repository's own state is the client cache \<^verbatim>\<open>s3Clients\<close>. \<open>syscalls\<close> records, in
  order, every call that left the process together with the error it threw, if any; it is
  the only instrumentation the model adds. \<open>repo_logs\<close> keeps the severities logged.
\<close>

record 'w repo_state =
  world :: 'w
  s3Clients :: "string \<rightharpoonup> S3Client"
  syscalls :: "(syscall \<times> js_error option) list"
  repo_logs :: "log_level list"

definition sysop :: "syscall \<Rightarrow> ('w \<Rightarrow> (js_error + 'a) \<times> 'w) \<Rightarrow> ('w repo_state, 'a) io" where
  "sysop c f s =
     (case f (world s) of
        (Inl e, w') \<Rightarrow> (Inl e, s\<lparr>world := w', syscalls := syscalls s @ [(c, Some e)]\<rparr>)
      | (Inr a, w') \<Rightarrow> (Inr a, s\<lparr>world := w', syscalls := syscalls s @ [(c, None)]\<rparr>))"

definition repo_logger :: "log_level \<Rightarrow> ('w repo_state, unit) io" where
  "repo_logger l s = (Inr (), s\<lparr>repo_logs := repo_logs s @ [l]\<rparr>)"

text \<open>
  \<^verbatim>\<open>endpoint.match(/^s3\.([^.]+)\.DOMAIN$/)\<close> followed by \<^verbatim>\<open>match ? match[1] : 'us-east-1'\<close>,
  where \<open>suffix\<close> is \<^verbatim>\<open>.DOMAIN\<close>.
\<close>

definition regionOf :: "string \<Rightarrow> string \<Rightarrow> string" where
  "regionOf suffix ep =
     (let mid = drop 3 (take (length ep - length suffix) ep) in
      if startsWith ep ''s3.'' \<and> endsWith ep suffix \<and> 3 + length suffix \<le> length ep
         \<and> mid \<noteq> [] \<and> CHR ''.'' \<notin> set mid
      then mid else ''us-east-1'')"

text \<open>\<^verbatim>\<open>!v\<close> for an optional string: unset or empty.\<close>

definition falsy :: "string option \<Rightarrow> bool" where
  "falsy v = (case v of None \<Rightarrow> True | Some x \<Rightarrow> x = [])"

definition getS3Credentials :: "'w sys \<Rightarrow> 'w \<Rightarrow> string \<Rightarrow> js_error + string \<times> string \<times> string" where
  "getS3Credentials sys w ep =
     (let sel =
        (if ep = ''fly.storage.tigris.dev'' \<or> ep = ''t3.storage.dev''
         then Inr (process_env sys ''TIGRIS_ACCESS_KEY_ID'' w,
                   process_env sys ''TIGRIS_SECRET_ACCESS_KEY'' w, ''auto'', ''Tigris'')
         else if endsWith ep ''.wasabisys.com''
         then Inr (process_env sys ''WASABI_ACCESS_KEY_ID'' w,
                   process_env sys ''WASABI_SECRET_ACCESS_KEY'' w,
                   regionOf ''.wasabisys.com'' ep, ''Wasabi'')
         else if endsWith ep ''.amazonaws.com''
         then Inr (process_env sys ''AWS_ACCESS_KEY_ID'' w,
                   process_env sys ''AWS_SECRET_ACCESS_KEY'' w,
                   regionOf ''.amazonaws.com'' ep, ''AWS'')
         else Inl (Error (''Unsupported S3 endpoint: '' @ ep @ ''. '' @
                 ''Supported providers: Tigris (fly.storage.tigris.dev, t3.storage.dev), '' @
                 ''Wasabi (*.wasabisys.com), AWS S3 (*.amazonaws.com)'')))
      in case sel of
           Inl e \<Rightarrow> Inl e
         | Inr (a, k, r, provider) \<Rightarrow>
             if falsy a \<or> falsy k
             then Inl (Error (provider @ '' credentials not found for endpoint: '' @ ep @ ''. '' @
                    ''Please set the appropriate environment variables for this storage provider.''))
             else Inr (the a, the k, r))"

definition getS3Client :: "'w sys \<Rightarrow> string \<Rightarrow> ('w repo_state, S3Client) io" where
  "getS3Client sys ep s =
     (case s3Clients s ep of
        None \<Rightarrow>
          (case getS3Credentials sys (world s) ep of
             Inl e \<Rightarrow> (Inl e, s)
           | Inr (a, k, r) \<Rightarrow>
               (let client = \<lparr>region = r, accessKeyId = a, secretAccessKey = k,
                              endpoint = ''https://'' @ ep\<rparr>
                in (Inr client,
                    s\<lparr>s3Clients := (s3Clients s)(ep \<mapsto> client),
                      repo_logs := repo_logs s @ [Log]\<rparr>)))
      | Some client \<Rightarrow> (Inr client, s))"

definition send :: "'w sys \<Rightarrow> S3Client \<Rightarrow> S3Command \<Rightarrow> ('w repo_state, S3Output) io" where
  "send sys client command = sysop (S3Send client command) (s3_send sys client command)"

definition unlink :: "'w sys \<Rightarrow> string \<Rightarrow> ('w repo_state, unit) io" where
  "unlink sys file =
     (if \<not> isRemote file
      then try_catch (sysop (FsUnlink file) (fs_unlink sys file))
             (\<lambda>error. if code error = Some ''ENOENT'' then repo_logger Warn else throw error)
      else try_catch
             (await (lift (parseCloudPath file)) (\<lambda>p.
              await (getS3Client sys (host p)) (\<lambda>client.
              await (send sys client (DeleteObjectCommand (bucket p) (key p))) (\<lambda>_.
              return ()))))
             (\<lambda>error. await (repo_logger Warn) (\<lambda>_. throw error)))"

definition rename :: "'w sys \<Rightarrow> string \<Rightarrow> string \<Rightarrow> ('w repo_state, unit) io" where
  "rename sys source target =
     (let sourceIsRemote = isRemote source; targetIsRemote = isRemote target in
      if \<not> sourceIsRemote \<and> \<not> targetIsRemote
      then sysop (FsRename source target) (fs_rename sys source target)
      else if sourceIsRemote \<and> targetIsRemote
      then await (lift (getS3BucketAndKey source)) (\<lambda>(sourceBucket, sourceKey).
           await (lift (getS3BucketAndKey target)) (\<lambda>(targetBucket, targetKey).
           if sourceBucket \<noteq> targetBucket
           then throw (Error (''Cannot rename between different remote storage buckets: ''
                              @ sourceBucket @ '' -> '' @ targetBucket))
           else await (lift (parseCloudPath target)) (\<lambda>p.
                await (getS3Client sys (host p)) (\<lambda>client.
                await (send sys client
                         (CopyObjectCommand targetBucket (sourceBucket @ ''/'' @ sourceKey)
                            targetKey None)) (\<lambda>_.
                unlink sys source)))))
      else throw (Error (''Cannot rename between different storage backends: ''
                         @ source @ '' -> '' @ target)))"

definition copyFile :: "'w sys \<Rightarrow> string \<Rightarrow> string \<Rightarrow> ('w repo_state, unit) io" where
  "copyFile sys source target =
     (let sourceIsRemote = isRemote source; targetIsRemote = isRemote target in
      if \<not> sourceIsRemote \<and> \<not> targetIsRemote
      then sysop (FsCopyFile source target) (fs_copyFile sys source target)
      else if sourceIsRemote \<and> targetIsRemote
      then await (lift (getS3BucketAndKey source)) (\<lambda>(sourceBucket, sourceKey).
           await (lift (getS3BucketAndKey target)) (\<lambda>(targetBucket, targetKey).
           if sourceBucket \<noteq> targetBucket
           then throw (Error (''Cannot copy between different remote storage buckets: ''
                              @ sourceBucket @ '' -> '' @ targetBucket))
           else await (lift (parseCloudPath target)) (\<lambda>p.
                await (getS3Client sys (host p)) (\<lambda>client.
                await (send sys client
                         (CopyObjectCommand targetBucket (sourceBucket @ ''/'' @ sourceKey)
                            targetKey None)) (\<lambda>_.
                return ())))))
      else throw (Error (''Cannot copy between different storage backends: ''
                         @ source @ '' -> '' @ target)))"

text \<open>
  \<^verbatim>\<open>metadata[k]\<close> on the response's metadata, and the test \<^verbatim>\<open>if (metadata[k])\<close>: the entry
  is used when it is present and not empty. \<^verbatim>\<open>new Date(string)\<close> does not throw.
\<close>

definition metadata_get :: "(string \<times> string) list option \<Rightarrow> string \<Rightarrow> string option" where
  "metadata_get md k = (case md of None \<Rightarrow> None | Some kvs \<Rightarrow> map_of kvs k)"

definition stat :: "'w sys \<Rightarrow> string \<Rightarrow> ('w repo_state, Stats) io" where
  "stat sys filepath =
     (if \<not> isRemote filepath
      then sysop (FsStat filepath) (fs_stat sys filepath)
      else await (lift (parseCloudPath filepath)) (\<lambda>p.
           await (getS3Client sys (host p)) (\<lambda>client.
           await (send sys client (HeadObjectCommand (bucket p) (key p))) (\<lambda>response. (\<lambda>s.
           (let now = int (date_now sys (world s));
                lastModified = (case LastModified response of Some d \<Rightarrow> d | None \<Rightarrow> now);
                m = metadata_get (Metadata response) ''immich-last-modified'';
                a = metadata_get (Metadata response) ''immich-last-accessed''
            in return
                 \<lparr>stat_size = (case ContentLength response of Some n \<Rightarrow> n | None \<Rightarrow> 0),
                  atime = (if falsy a then lastModified else date_parse sys (the a)),
                  mtime = (if falsy m then lastModified else date_parse sys (the m)),
                  birthtime = lastModified\<rparr> s))))))"

text \<open>
  The spread \<^verbatim>\<open>{...(headResponse.Metadata || {}), k1: v1, k2: v2}\<close>: the old entries with
  the two keys overwritten.
\<close>

definition metadata_with :: "(string \<times> string) list option \<Rightarrow> string \<Rightarrow> string \<Rightarrow> (string \<times> string) list" where
  "metadata_with md a m =
     AList.update ''immich-last-modified'' m
       (AList.update ''immich-last-accessed'' a (case md of None \<Rightarrow> [] | Some kvs \<Rightarrow> kvs))"

definition utimes :: "'w sys \<Rightarrow> string \<Rightarrow> int \<Rightarrow> int \<Rightarrow> ('w repo_state, unit) io" where
  "utimes sys filepath a m =
     (if \<not> isRemote filepath
      then sysop (FsUtimes filepath a m) (fs_utimes sys filepath a m)
      else await (lift (parseCloudPath filepath)) (\<lambda>p.
           await (getS3Client sys (host p)) (\<lambda>client.
           await (send sys client (HeadObjectCommand (bucket p) (key p))) (\<lambda>headResponse.
           await (send sys client
                    (CopyObjectCommand (bucket p) (bucket p @ ''/'' @ key p) (key p)
                       (Some (metadata_with (Metadata headResponse)
                                (toISOString sys a) (toISOString sys m))))) (\<lambda>_.
           return ())))))"

definition checkFileExists :: "'w sys \<Rightarrow> string \<Rightarrow> nat \<Rightarrow> ('w repo_state, bool) io" where
  "checkFileExists sys filepath mode =
     (if \<not> isRemote filepath
      then try_catch
             (await (sysop (FsAccess filepath mode) (fs_access sys filepath mode))
                (\<lambda>_. return True))
             (\<lambda>_. return False)
      else try_catch
             (await (lift (parseCloudPath filepath)) (\<lambda>p.
              await (getS3Client sys (host p)) (\<lambda>client.
              await (send sys client (HeadObjectCommand (bucket p) (key p))) (\<lambda>_.
              return True))))
             (\<lambda>_. return False))"

definition mkdirSync :: "'w sys \<Rightarrow> string \<Rightarrow> ('w repo_state, unit) io" where
  "mkdirSync sys filepath =
     await (sysop (FsExistsSync filepath) (fs_existsSync sys filepath)) (\<lambda>exists.
     if \<not> exists then sysop (FsMkdirSync filepath) (fs_mkdirSync sys filepath)
     else return ())"

text \<open>
  A client serves a host when its endpoint is \<^verbatim>\<open>https://\<close> followed by the host, as
  \<^verbatim>\<open>getS3Client\<close> builds it. The client cache is consistent when every client it holds
  serves the host it is stored under; the empty cache is, and \<^verbatim>\<open>getS3Client\<close>, the only
  writer of the cache, keeps it so.
\<close>

definition serves :: "S3Client \<Rightarrow> string \<Rightarrow> bool" where
  "serves c h \<longleftrightarrow> endpoint c = ''https://'' @ h"

definition cache_ok :: "'w repo_state \<Rightarrow> bool" where
  "cache_ok s \<longleftrightarrow> (\<forall>h c. s3Clients s h = Some c \<longrightarrow> serves c h)"

text \<open>
  What \<^verbatim>\<open>rename\<close> sends for two remote paths with one bucket name, as the list of calls
  made and the result: the copy goes to a client that serves the target's host, the
  delete, which is \<^verbatim>\<open>this.unlink(source)\<close>, to a client that serves the source's host.
  Each rule is one way the sequence can end.
\<close>

definition copy_command :: "ParsedCloudPath \<Rightarrow> ParsedCloudPath \<Rightarrow> S3Command" where
  "copy_command ps pd = CopyObjectCommand (bucket pd) (bucket ps @ ''/'' @ key ps) (key pd) None"

inductive rename_remote_run ::
  "ParsedCloudPath \<Rightarrow> ParsedCloudPath \<Rightarrow> (syscall \<times> js_error option) list \<Rightarrow> js_error + unit \<Rightarrow> bool"
  for ps pd where
  no_target_client: "rename_remote_run ps pd [] (Inl e)"
| copy_failed:
    "serves c (host pd) \<Longrightarrow>
     rename_remote_run ps pd [(S3Send c (copy_command ps pd), Some e)] (Inl e)"
| no_source_client:
    "serves c (host pd) \<Longrightarrow>
     rename_remote_run ps pd [(S3Send c (copy_command ps pd), None)] (Inl e)"
| delete_failed:
    "serves c (host pd) \<Longrightarrow> serves c' (host ps) \<Longrightarrow>
     rename_remote_run ps pd
       [(S3Send c (copy_command ps pd), None),
        (S3Send c' (DeleteObjectCommand (bucket ps) (key ps)), Some e)] (Inl e)"
| renamed:
    "serves c (host pd) \<Longrightarrow> serves c' (host ps) \<Longrightarrow>
     rename_remote_run ps pd
       [(S3Send c (copy_command ps pd), None),
        (S3Send c' (DeleteObjectCommand (bucket ps) (key ps)), None)] (Inr ())"

code_pred rename_remote_run .

subsection \<open>The storage core: \<^verbatim>\<open>moveFile\<close>\<close>

datatype PathType = Original | FullSize | Preview | Thumbnail | EncodedVideo | Sidecar | Face

datatype AssetFileType = FileFullSize | FilePreview | FileThumbnail

datatype AssetField = OriginalPath | EncodedVideoPath | SidecarPath

record AssetInfo =
  sizeInBytes :: int
  checksum :: string

record MoveRequest =
  entityId :: string
  pathType :: PathType
  oldPath :: "string option"
  newPath :: string
  assetInfo :: "AssetInfo option"

text \<open>A row of the move repository: the durable intent.\<close>

record Move =
  move_id :: string
  move_entityId :: string
  move_pathType :: PathType
  move_oldPath :: string
  move_newPath :: string

text \<open>
  The collaborators injected into \<^verbatim>\<open>StorageCore\<close>, as far as \<^verbatim>\<open>moveFile\<close> uses them. Each
  method acts on a world \<open>'w\<close> and may throw. \<open>getConfig\<close> stands for
  \<^verbatim>\<open>getConfig(repos, { withCache: true })\<close> read at \<^verbatim>\<open>storageTemplate.hashVerificationEnabled\<close>,
  and \<open>path_dirname\<close> for \<^verbatim>\<open>dirname\<close> of \<^verbatim>\<open>node:path\<close>.
\<close>

record 'w repos =
  storage_mkdirSync :: "string \<Rightarrow> 'w \<Rightarrow> (js_error + unit) \<times> 'w"
  storage_checkFileExists :: "string \<Rightarrow> 'w \<Rightarrow> (js_error + bool) \<times> 'w"
  storage_stat :: "string \<Rightarrow> 'w \<Rightarrow> (js_error + Stats) \<times> 'w"
  storage_rename :: "string \<Rightarrow> string \<Rightarrow> 'w \<Rightarrow> (js_error + unit) \<times> 'w"
  storage_copyFile :: "string \<Rightarrow> string \<Rightarrow> 'w \<Rightarrow> (js_error + unit) \<times> 'w"
  storage_utimes :: "string \<Rightarrow> int \<Rightarrow> int \<Rightarrow> 'w \<Rightarrow> (js_error + unit) \<times> 'w"
  storage_unlink :: "string \<Rightarrow> 'w \<Rightarrow> (js_error + unit) \<times> 'w"
  move_getByEntity :: "string \<Rightarrow> PathType \<Rightarrow> 'w \<Rightarrow> (js_error + Move option) \<times> 'w"
  move_create :: "string \<Rightarrow> PathType \<Rightarrow> string \<Rightarrow> string \<Rightarrow> 'w \<Rightarrow> (js_error + Move) \<times> 'w"
  move_update :: "string \<Rightarrow> string \<Rightarrow> string \<Rightarrow> 'w \<Rightarrow> (js_error + Move) \<times> 'w"
  move_delete :: "string \<Rightarrow> 'w \<Rightarrow> (js_error + unit) \<times> 'w"
  crypto_hashFile :: "string \<Rightarrow> 'w \<Rightarrow> (js_error + string) \<times> 'w"
  getConfig :: "'w \<Rightarrow> (js_error + bool) \<times> 'w"
  asset_update :: "string \<Rightarrow> AssetField \<Rightarrow> string \<Rightarrow> 'w \<Rightarrow> (js_error + unit) \<times> 'w"
  asset_upsertFile :: "string \<Rightarrow> AssetFileType \<Rightarrow> string \<Rightarrow> 'w \<Rightarrow> (js_error + unit) \<times> 'w"
  person_update :: "string \<Rightarrow> string \<Rightarrow> 'w \<Rightarrow> (js_error + unit) \<times> 'w"
  path_dirname :: "string \<Rightarrow> string"

text \<open>
  The calls \<^verbatim>\<open>moveFile\<close> makes on its collaborators, and what came back. The trace of
  these pairs is the instrumentation of the model: the claims about what is done, in
  which order and after which answers are statements about the trace.
\<close>

datatype call =
    MkdirSync string
  | GetByEntity string PathType
  | MoveCreate string PathType string string
  | MoveUpdate string string string
  | MoveDelete string
  | CheckFileExists string
  | Stat string
  | GetConfig
  | HashFile string
  | Rename string string
  | CopyFile string string
  | Utimes string int int
  | Unlink string
  | AssetUpdate string AssetField string
  | AssetUpsertFile string AssetFileType string
  | PersonUpdate string string

datatype payload =
    Unit
  | Bool bool
  | StatsOf Stats
  | Hash string
  | Row Move
  | Found "Move option"

datatype outcome = Threw js_error | Gave payload

type_synonym event = "call \<times> outcome"

record 'w core_state =
  env :: 'w
  trace :: "event list"
  core_logs :: "log_level list"

definition invoke ::
  "call \<Rightarrow> ('a \<Rightarrow> payload) \<Rightarrow> ('w \<Rightarrow> (js_error + 'a) \<times> 'w) \<Rightarrow> ('w core_state, 'a) io" where
  "invoke c wrap f s =
     (case f (env s) of
        (Inl e, w') \<Rightarrow> (Inl e, s\<lparr>env := w', trace := trace s @ [(c, Threw e)]\<rparr>)
      | (Inr a, w') \<Rightarrow> (Inr a, s\<lparr>env := w', trace := trace s @ [(c, Gave (wrap a))]\<rparr>))"

text \<open>
  A call of the logger is modelled by its severity: it does not throw, and the text of the
  message, which has no influence on the control flow, is left out.
\<close>

definition logger :: "log_level \<Rightarrow> ('w core_state, unit) io" where
  "logger l s = (Inr (), s\<lparr>core_logs := core_logs s @ [l]\<rparr>)"

definition ensureFolders :: "'w repos \<Rightarrow> string \<Rightarrow> ('w core_state, unit) io" where
  "ensureFolders R input =
     (let isCloudPath = (\<not> startsWith input ''/'' \<and> 3 \<le> length (str_split CHR ''/'' input)
                         \<and> str_includes (str_split CHR ''/'' input ! 0) CHR ''.'') in
      if \<not> isCloudPath
      then invoke (MkdirSync (path_dirname R input)) (\<lambda>_. Unit)
             (storage_mkdirSync R (path_dirname R input))
      else return ())"

definition savePath :: "'w repos \<Rightarrow> PathType \<Rightarrow> string \<Rightarrow> string \<Rightarrow> ('w core_state, unit) io" where
  "savePath R pt ident np =
     (case pt of
        Original \<Rightarrow>
          invoke (AssetUpdate ident OriginalPath np) (\<lambda>_. Unit) (asset_update R ident OriginalPath np)
      | FullSize \<Rightarrow>
          invoke (AssetUpsertFile ident FileFullSize np) (\<lambda>_. Unit)
            (asset_upsertFile R ident FileFullSize np)
      | Preview \<Rightarrow>
          invoke (AssetUpsertFile ident FilePreview np) (\<lambda>_. Unit)
            (asset_upsertFile R ident FilePreview np)
      | Thumbnail \<Rightarrow>
          invoke (AssetUpsertFile ident FileThumbnail np) (\<lambda>_. Unit)
            (asset_upsertFile R ident FileThumbnail np)
      | EncodedVideo \<Rightarrow>
          invoke (AssetUpdate ident EncodedVideoPath np) (\<lambda>_. Unit)
            (asset_update R ident EncodedVideoPath np)
      | Sidecar \<Rightarrow>
          invoke (AssetUpdate ident SidecarPath np) (\<lambda>_. Unit) (asset_update R ident SidecarPath np)
      | Face \<Rightarrow>
          invoke (PersonUpdate ident np) (\<lambda>_. Unit) (person_update R ident np))"

definition verifyNewPathContentsMatchesExpected ::
  "'w repos \<Rightarrow> string \<Rightarrow> string \<Rightarrow> AssetInfo option \<Rightarrow> ('w core_state, bool) io" where
  "verifyNewPathContentsMatchesExpected R old new info =
     await (invoke (Stat old) StatsOf (storage_stat R old)) (\<lambda>oldStat.
     await (invoke (Stat new) StatsOf (storage_stat R new)) (\<lambda>newStat.
     (let oldPathSize = (case info of Some ai \<Rightarrow> sizeInBytes ai | None \<Rightarrow> stat_size oldStat);
          newPathSize = stat_size newStat in
      await (logger Debug) (\<lambda>_.
      if newPathSize \<noteq> oldPathSize
      then await (logger Warn) (\<lambda>_. return False)
      else await (invoke GetConfig Bool (getConfig R)) (\<lambda>hashVerificationEnabled.
           case info of
             Some ai \<Rightarrow>
               if hashVerificationEnabled
               then await (invoke (HashFile new) Hash (crypto_hashFile R new)) (\<lambda>newChecksum.
                    if newChecksum \<noteq> checksum ai
                    then await (logger Warn) (\<lambda>_. return False)
                    else await (logger Debug) (\<lambda>_. return True))
               else return True
           | None \<Rightarrow> return True)))))"

text \<open>
  The branch \<^verbatim>\<open>if (move) { ... }\<close>: an intent was found. The result \<open>None\<close> is one of the
  two \<^verbatim>\<open>return\<close> statements of the branch, \<open>Some m\<close> the row returned by the update.
\<close>

definition finishIncompleteMove ::
  "'w repos \<Rightarrow> MoveRequest \<Rightarrow> Move \<Rightarrow> ('w core_state, Move option) io" where
  "finishIncompleteMove R req move =
     await (logger Log) (\<lambda>_.
     await (invoke (CheckFileExists (move_oldPath move)) Bool
              (storage_checkFileExists R (move_oldPath move))) (\<lambda>oldPathExists.
     await (invoke (CheckFileExists (move_newPath move)) Bool
              (storage_checkFileExists R (move_newPath move))) (\<lambda>newPathExists.
     (let newPathCheck = (if newPathExists then Some (move_newPath move) else None);
          actualPath = (if oldPathExists then Some (move_oldPath move) else newPathCheck) in
      if falsy actualPath
      then await (logger Warn) (\<lambda>_. return None)
      else (let fileAtNewLocation = (the actualPath = move_newPath move) in
            await (logger Log) (\<lambda>_.
            await (if fileAtNewLocation
                   then await (verifyNewPathContentsMatchesExpected R (move_oldPath move)
                                 (move_newPath move) (assetInfo req)) (\<lambda>ok. return (\<not> ok))
                   else return False) (\<lambda>failed.
            if failed
            then await (logger Fatal) (\<lambda>_. return None)
            else await (invoke (MoveUpdate (move_id move) (the actualPath) (newPath req)) Row
                          (move_update R (move_id move) (the actualPath) (newPath req)))
                   (\<lambda>m. return (Some m)))))))))"

text \<open>
  The \<^verbatim>\<open>try { rename } catch { ... }\<close> statement. The result \<open>False\<close> is a \<^verbatim>\<open>return\<close> from
  inside the handler, \<open>True\<close> falls through to the commit.
\<close>

definition relocate ::
  "'w repos \<Rightarrow> string \<Rightarrow> string \<Rightarrow> AssetInfo option \<Rightarrow> ('w core_state, bool) io" where
  "relocate R old new info =
     try_catch
       (await (logger Debug) (\<lambda>_.
        await (invoke (Rename old new) (\<lambda>_. Unit) (storage_rename R old new)) (\<lambda>_.
        return True)))
       (\<lambda>error.
          if code error \<noteq> Some ''EXDEV''
          then await (logger Warn) (\<lambda>_. return False)
          else await (logger Debug) (\<lambda>_.
               await (invoke (CopyFile old new) (\<lambda>_. Unit) (storage_copyFile R old new)) (\<lambda>_.
               await (verifyNewPathContentsMatchesExpected R old new info) (\<lambda>ok.
               if \<not> ok
               then await (logger Warn) (\<lambda>_.
                    await (invoke (Unlink new) (\<lambda>_. Unit) (storage_unlink R new)) (\<lambda>_.
                    return False))
               else await (invoke (Stat old) StatsOf (storage_stat R old)) (\<lambda>st.
                    await (invoke (Utimes new (atime st) (mtime st)) (\<lambda>_. Unit)
                             (storage_utimes R new (atime st) (mtime st))) (\<lambda>_.
                    await (try_catch
                             (invoke (Unlink old) (\<lambda>_. Unit) (storage_unlink R old))
                             (\<lambda>error. logger Warn)) (\<lambda>_.
                    return True)))))))"

definition moveFile :: "'w repos \<Rightarrow> MoveRequest \<Rightarrow> ('w core_state, unit) io" where
  "moveFile R req =
     (if falsy (oldPath req) \<or> oldPath req = Some (newPath req)
      then return ()
      else await (ensureFolders R (newPath req)) (\<lambda>_.
           await (invoke (GetByEntity (entityId req) (pathType req)) Found
                    (move_getByEntity R (entityId req) (pathType req))) (\<lambda>found.
           await (case found of
                    Some move \<Rightarrow> finishIncompleteMove R req move
                  | None \<Rightarrow>
                      await (invoke (MoveCreate (entityId req) (pathType req)
                                       (the (oldPath req)) (newPath req)) Row
                               (move_create R (entityId req) (pathType req)
                                  (the (oldPath req)) (newPath req)))
                        (\<lambda>m. return (Some m))) (\<lambda>entry.
           case entry of
             None \<Rightarrow> return ()
           | Some move \<Rightarrow>
               if pathType req = Original \<and> assetInfo req = None
               then await (logger Warn) (\<lambda>_. return ())
               else await (if move_oldPath move \<noteq> newPath req
                           then relocate R (move_oldPath move) (newPath req) (assetInfo req)
                           else return True) (\<lambda>proceed.
                    if \<not> proceed then return ()
                    else await (savePath R (pathType req) (entityId req) (newPath req)) (\<lambda>_.
                         invoke (MoveDelete (move_id move)) (\<lambda>_. Unit)
                           (move_delete R (move_id move))))))))"

subsection \<open>Runs of the move protocol, as event sequences\<close>

text \<open>
  The event sequences a verification can produce, with its result. \<open>expected_size\<close> is
  \<^verbatim>\<open>assetInfo ? assetInfo.sizeInBytes : oldStat.size\<close>. A rule per way the function can
  end: a throwing call ends it with that error, a size mismatch with \<open>False\<close>; the hash is
  read only when asset info is present and hash verification is enabled.
\<close>

definition expected_size :: "AssetInfo option \<Rightarrow> Stats \<Rightarrow> int" where
  "expected_size info oldStat = (case info of Some ai \<Rightarrow> sizeInBytes ai | None \<Rightarrow> stat_size oldStat)"

inductive verify_run :: "AssetInfo option \<Rightarrow> string \<Rightarrow> string \<Rightarrow> event list \<Rightarrow> js_error + bool \<Rightarrow> bool"
  where
  stat_old_threw:
    "verify_run info old new [(Stat old, Threw e)] (Inl e)"
| stat_new_threw:
    "verify_run info old new [(Stat old, Gave (StatsOf os)), (Stat new, Threw e)] (Inl e)"
| size_mismatch:
    "stat_size ns \<noteq> expected_size info os \<Longrightarrow>
     verify_run info old new
       [(Stat old, Gave (StatsOf os)), (Stat new, Gave (StatsOf ns))] (Inr False)"
| config_threw:
    "stat_size ns = expected_size info os \<Longrightarrow>
     verify_run info old new
       [(Stat old, Gave (StatsOf os)), (Stat new, Gave (StatsOf ns)), (GetConfig, Threw e)] (Inl e)"
| size_verified:
    "stat_size ns = expected_size info os \<Longrightarrow> info = None \<or> \<not> enabled \<Longrightarrow>
     verify_run info old new
       [(Stat old, Gave (StatsOf os)), (Stat new, Gave (StatsOf ns)),
        (GetConfig, Gave (Bool enabled))] (Inr True)"
| hash_threw:
    "stat_size ns = sizeInBytes ai \<Longrightarrow>
     verify_run (Some ai) old new
       [(Stat old, Gave (StatsOf os)), (Stat new, Gave (StatsOf ns)),
        (GetConfig, Gave (Bool True)), (HashFile new, Threw e)] (Inl e)"
| hash_compared:
    "stat_size ns = sizeInBytes ai \<Longrightarrow> ok = (h = checksum ai) \<Longrightarrow>
     verify_run (Some ai) old new
       [(Stat old, Gave (StatsOf os)), (Stat new, Gave (StatsOf ns)),
        (GetConfig, Gave (Bool True)), (HashFile new, Gave (Hash h))] (Inr ok)"

code_pred verify_run .

text \<open>
  The event sequences of the copy-based fallback, after the rename has failed with
  \<^verbatim>\<open>EXDEV\<close>. The result \<open>Inr False\<close> is the \<^verbatim>\<open>return\<close> after a rejected destination,
  \<open>Inr True\<close> falls through to the commit.
\<close>

inductive fallback_run :: "AssetInfo option \<Rightarrow> string \<Rightarrow> string \<Rightarrow> event list \<Rightarrow> js_error + bool \<Rightarrow> bool"
  for info old new where
  copy_threw:
    "fallback_run info old new [(CopyFile old new, Threw e)] (Inl e)"
| verify_threw:
    "verify_run info old new vs (Inl e) \<Longrightarrow>
     fallback_run info old new ((CopyFile old new, Gave Unit) # vs) (Inl e)"
| rejected:
    "verify_run info old new vs (Inr False) \<Longrightarrow>
     fallback_run info old new
       ((CopyFile old new, Gave Unit) # vs @ [(Unlink new, Gave Unit)]) (Inr False)"
| rejected_unlink_threw:
    "verify_run info old new vs (Inr False) \<Longrightarrow>
     fallback_run info old new
       ((CopyFile old new, Gave Unit) # vs @ [(Unlink new, Threw e)]) (Inl e)"
| stat_threw:
    "verify_run info old new vs (Inr True) \<Longrightarrow>
     fallback_run info old new
       ((CopyFile old new, Gave Unit) # vs @ [(Stat old, Threw e)]) (Inl e)"
| utimes_threw:
    "verify_run info old new vs (Inr True) \<Longrightarrow>
     fallback_run info old new
       ((CopyFile old new, Gave Unit) # vs @
        [(Stat old, Gave (StatsOf st)), (Utimes new (atime st) (mtime st), Threw e)]) (Inl e)"
| moved:
    "verify_run info old new vs (Inr True) \<Longrightarrow>
     fallback_run info old new
       ((CopyFile old new, Gave Unit) # vs @
        [(Stat old, Gave (StatsOf st)), (Utimes new (atime st) (mtime st), Gave Unit),
         (Unlink old, out)]) (Inr True)"

code_pred fallback_run .

text \<open>The event sequences of the rename attempt with its handler.\<close>

inductive relocate_run :: "AssetInfo option \<Rightarrow> string \<Rightarrow> string \<Rightarrow> event list \<Rightarrow> js_error + bool \<Rightarrow> bool"
  for info old new where
  renamed:
    "relocate_run info old new [(Rename old new, Gave Unit)] (Inr True)"
| rename_failed:
    "code e \<noteq> Some ''EXDEV'' \<Longrightarrow>
     relocate_run info old new [(Rename old new, Threw e)] (Inr False)"
| fell_back:
    "code e = Some ''EXDEV'' \<Longrightarrow> fallback_run info old new evs r \<Longrightarrow>
     relocate_run info old new ((Rename old new, Threw e) # evs) r"

code_pred relocate_run .

text \<open>
  The call \<^verbatim>\<open>savePath\<close> makes for a path type, and the event sequences of the commit:
  \<^verbatim>\<open>savePath\<close> followed by the deletion of the intent.
\<close>

definition save_call :: "PathType \<Rightarrow> string \<Rightarrow> string \<Rightarrow> call" where
  "save_call pt ident np =
     (case pt of
        Original \<Rightarrow> AssetUpdate ident OriginalPath np
      | FullSize \<Rightarrow> AssetUpsertFile ident FileFullSize np
      | Preview \<Rightarrow> AssetUpsertFile ident FilePreview np
      | Thumbnail \<Rightarrow> AssetUpsertFile ident FileThumbnail np
      | EncodedVideo \<Rightarrow> AssetUpdate ident EncodedVideoPath np
      | Sidecar \<Rightarrow> AssetUpdate ident SidecarPath np
      | Face \<Rightarrow> PersonUpdate ident np)"

inductive commit_run :: "MoveRequest \<Rightarrow> string \<Rightarrow> event list \<Rightarrow> js_error + unit \<Rightarrow> bool"
  for req mid where
  save_threw:
    "commit_run req mid [(save_call (pathType req) (entityId req) (newPath req), Threw e)] (Inl e)"
| delete_threw:
    "commit_run req mid
       [(save_call (pathType req) (entityId req) (newPath req), Gave Unit),
        (MoveDelete mid, Threw e)] (Inl e)"
| cleaned:
    "commit_run req mid
       [(save_call (pathType req) (entityId req) (newPath req), Gave Unit),
        (MoveDelete mid, Gave Unit)] (Inr ())"

code_pred commit_run .

text \<open>
  The calls made before the relocation: they create a folder, read or write the intent
  store, or read a file. None moves, copies or deletes a file, sets timestamps, commits a
  path or deletes the intent.
\<close>

definition probing :: "call \<Rightarrow> bool" where
  "probing c =
     (case c of
        MkdirSync d \<Rightarrow> True
      | GetByEntity i t \<Rightarrow> True
      | MoveCreate i t a b \<Rightarrow> True
      | MoveUpdate i a b \<Rightarrow> True
      | CheckFileExists p \<Rightarrow> True
      | Stat p \<Rightarrow> True
      | GetConfig \<Rightarrow> True
      | HashFile p \<Rightarrow> True
      | _ \<Rightarrow> False)"

text \<open>
  The event sequences of a whole call. \<open>stopped\<close> covers every way to end before the
  relocation: the two no-op tests, a thrown error, the \<^verbatim>\<open>return\<close> statements of the
  recovery branch and the missing asset info of an original.
\<close>

inductive moveFile_run :: "MoveRequest \<Rightarrow> event list \<Rightarrow> js_error + unit \<Rightarrow> bool"
  for req where
  stopped:
    "\<forall>ev\<in>set pre. probing (fst ev) \<Longrightarrow> moveFile_run req pre r"
| relocation_threw:
    "\<forall>ev\<in>set pre. probing (fst ev) \<Longrightarrow> old \<noteq> newPath req \<Longrightarrow>
     relocate_run (assetInfo req) old (newPath req) evs (Inl e) \<Longrightarrow>
     moveFile_run req (pre @ evs) (Inl e)"
| relocation_returned:
    "\<forall>ev\<in>set pre. probing (fst ev) \<Longrightarrow> old \<noteq> newPath req \<Longrightarrow>
     relocate_run (assetInfo req) old (newPath req) evs (Inr False) \<Longrightarrow>
     moveFile_run req (pre @ evs) (Inr ())"
| relocated:
    "\<forall>ev\<in>set pre. probing (fst ev) \<Longrightarrow> old \<noteq> newPath req \<Longrightarrow>
     relocate_run (assetInfo req) old (newPath req) evs (Inr True) \<Longrightarrow>
     commit_run req mid post r \<Longrightarrow>
     moveFile_run req (pre @ evs @ post) r"
| in_place:
    "\<forall>ev\<in>set pre. probing (fst ev) \<Longrightarrow>
     commit_run req mid post r \<Longrightarrow>
     moveFile_run req (pre @ post) r"

code_pred moveFile_run .

text \<open>
  The statements of \<^verbatim>\<open>moveFile\<close> after the intent has been obtained, as a function of the
  intent: \<^verbatim>\<open>moveFile\<close> above is literally the prelude followed by this continuation (lemma
  \<open>moveFile_after_intent\<close>). It only serves to split the proofs.
\<close>

definition after_intent :: "'w repos \<Rightarrow> MoveRequest \<Rightarrow> Move option \<Rightarrow> ('w core_state, unit) io" where
  "after_intent R req entry =
     (case entry of
        None \<Rightarrow> return ()
      | Some move \<Rightarrow>
          if pathType req = Original \<and> assetInfo req = None
          then await (logger Warn) (\<lambda>_. return ())
          else await (if move_oldPath move \<noteq> newPath req
                      then relocate R (move_oldPath move) (newPath req) (assetInfo req)
                      else return True) (\<lambda>proceed.
               if \<not> proceed then return ()
               else await (savePath R (pathType req) (entityId req) (newPath req)) (\<lambda>_.
                    invoke (MoveDelete (move_id move)) (\<lambda>_. Unit)
                      (move_delete R (move_id move)))))"

text \<open>
  What the events of a verification show. \<open>verified\<close>: both files were read, the size of
  the destination equals the expected size, and, when asset info is present and hash
  verification is enabled, the hash read from the destination equals the expected
  checksum. \<open>mismatch\<close>: the size of the destination differs from the expected size, or the
  sizes agree, hash verification is enabled and the hash read from the destination
  differs from the expected checksum.
\<close>

definition verified :: "AssetInfo option \<Rightarrow> string \<Rightarrow> string \<Rightarrow> event list \<Rightarrow> bool" where
  "verified info old new vs \<longleftrightarrow>
     (\<exists>os ns enabled.
        stat_size ns = expected_size info os \<and>
        (vs = [(Stat old, Gave (StatsOf os)), (Stat new, Gave (StatsOf ns)),
               (GetConfig, Gave (Bool enabled))] \<and> (info = None \<or> \<not> enabled)
         \<or> (\<exists>ai. info = Some ai \<and>
               vs = [(Stat old, Gave (StatsOf os)), (Stat new, Gave (StatsOf ns)),
                     (GetConfig, Gave (Bool True)),
                     (HashFile new, Gave (Hash (checksum ai)))])))"

definition mismatch :: "AssetInfo option \<Rightarrow> string \<Rightarrow> string \<Rightarrow> event list \<Rightarrow> bool" where
  "mismatch info old new vs \<longleftrightarrow>
     (\<exists>os ns.
        vs = [(Stat old, Gave (StatsOf os)), (Stat new, Gave (StatsOf ns))] \<and>
        stat_size ns \<noteq> expected_size info os)
     \<or> (\<exists>os ns ai h.
          info = Some ai \<and> stat_size ns = sizeInBytes ai \<and> h \<noteq> checksum ai \<and>
          vs = [(Stat old, Gave (StatsOf os)), (Stat new, Gave (StatsOf ns)),
                (GetConfig, Gave (Bool True)), (HashFile new, Gave (Hash h))])"

text \<open>The calls of the commit: they record the new path or delete the intent.\<close>

definition committing :: "call \<Rightarrow> bool" where
  "committing c =
     (case c of
        AssetUpdate i f p \<Rightarrow> True
      | AssetUpsertFile i t p \<Rightarrow> True
      | PersonUpdate i p \<Rightarrow> True
      | MoveDelete i \<Rightarrow> True
      | _ \<Rightarrow> False)"

text \<open>The calls that remove a file or move it away from its path.\<close>

definition removing :: "call \<Rightarrow> bool" where
  "removing c = (case c of Unlink p \<Rightarrow> True | Rename a b \<Rightarrow> True | _ \<Rightarrow> False)"

text \<open>
  The events after the rename event of a call, with the result of the call: the rename
  succeeded and the commit follows; it failed with a code other than \<^verbatim>\<open>EXDEV\<close> and the
  call returned; or it failed with \<^verbatim>\<open>EXDEV\<close> and the fallback ran, followed by the commit
  when it fell through.
\<close>

definition after_rename ::
  "MoveRequest \<Rightarrow> string \<Rightarrow> outcome \<Rightarrow> event list \<Rightarrow> js_error + unit \<Rightarrow> bool" where
  "after_rename req old rn rest r \<longleftrightarrow>
     (rn = Gave Unit \<and> (\<exists>mid. commit_run req mid rest r)) \<or>
     (\<exists>e. rn = Threw e \<and> code e \<noteq> Some ''EXDEV'' \<and> rest = [] \<and> r = Inr ()) \<or>
     (\<exists>e fb rr post. rn = Threw e \<and> code e = Some ''EXDEV'' \<and>
        fallback_run (assetInfo req) old (newPath req) fb rr \<and> rest = fb @ post \<and>
        (rr = Inr True \<and> (\<exists>mid. commit_run req mid post r) \<or>
         rr = Inr False \<and> post = [] \<and> r = Inr () \<or>
         (\<exists>e'. rr = Inl e' \<and> post = [] \<and> r = Inl e')))"

text \<open>
  The three ways the fallback can go, as the events after the failed rename and the
  result of the call. \<open>moved_by_copy\<close>: copy, a verification that passed, the source's
  timestamps set on the destination, the deletion of the source, then the commit.
  \<open>copy_rejected\<close>: copy, a verification that found a mismatch, the deletion of the
  destination, and nothing more. \<open>copy_aborted\<close>: one of the calls threw; the error is the
  result, and no call removed a file or committed anything.
\<close>

definition moved_by_copy :: "MoveRequest \<Rightarrow> string \<Rightarrow> event list \<Rightarrow> js_error + unit \<Rightarrow> bool" where
  "moved_by_copy req old rest r \<longleftrightarrow>
     (\<exists>vs st out post mid.
        rest = (CopyFile old (newPath req), Gave Unit) # vs @
               [(Stat old, Gave (StatsOf st)),
                (Utimes (newPath req) (atime st) (mtime st), Gave Unit),
                (Unlink old, out)] @ post \<and>
        verified (assetInfo req) old (newPath req) vs \<and> commit_run req mid post r)"

definition copy_rejected :: "MoveRequest \<Rightarrow> string \<Rightarrow> event list \<Rightarrow> js_error + unit \<Rightarrow> bool" where
  "copy_rejected req old rest r \<longleftrightarrow>
     (\<exists>vs out.
        rest = (CopyFile old (newPath req), Gave Unit) # vs @ [(Unlink (newPath req), out)] \<and>
        mismatch (assetInfo req) old (newPath req) vs \<and>
        r = (case out of Threw e \<Rightarrow> Inl e | Gave x \<Rightarrow> Inr ()))"

definition copy_aborted :: "MoveRequest \<Rightarrow> string \<Rightarrow> event list \<Rightarrow> js_error + unit \<Rightarrow> bool" where
  "copy_aborted req old rest r \<longleftrightarrow>
     (\<exists>e. r = Inl e \<and> rest \<noteq> [] \<and> fst (hd rest) = CopyFile old (newPath req) \<and>
          snd (last rest) = Threw e \<and>
          (\<forall>ev\<in>set rest. \<not> removing (fst ev) \<and> \<not> committing (fst ev)))"

text \<open>Tests on the kind of a call, used to find an event in a trace.\<close>

definition is_rename :: "call \<Rightarrow> bool" where
  "is_rename c = (case c of Rename a b \<Rightarrow> True | _ \<Rightarrow> False)"

definition is_copy :: "call \<Rightarrow> bool" where
  "is_copy c = (case c of CopyFile a b \<Rightarrow> True | _ \<Rightarrow> False)"

definition is_unlink :: "call \<Rightarrow> bool" where
  "is_unlink c = (case c of Unlink p \<Rightarrow> True | _ \<Rightarrow> False)"

subsection \<open>Temporary files of the local-materialisation bridge\<close>

text \<open>The decimal digits of a number, as the template literal prints \<^verbatim>\<open>Date.now()\<close>.\<close>

fun show_nat :: "nat \<Rightarrow> string" where
  "show_nat n =
     (if n < 10 then [''0123456789'' ! n]
      else show_nat (n div 10) @ [''0123456789'' ! (n mod 10)])"

declare show_nat.simps [simp del]

text \<open>
  \<^verbatim>\<open>path.basename\<close> of \<^verbatim>\<open>node:path\<close> (POSIX): trailing slashes are dropped, then the part
  after the last slash is returned.
\<close>

definition basename :: "string \<Rightarrow> string" where
  "basename p =
     rev (takeWhile (\<lambda>c. c \<noteq> CHR ''/'') (dropWhile (\<lambda>c. c = CHR ''/'') (rev p)))"

text \<open>
  The temporary file of \<^verbatim>\<open>writeFile\<close> for a remote destination:
  \<^verbatim>\<open>path.join(tmpdir(), `immich-write-${Date.now()}-${path.basename(filepath)}`)\<close>,
  and the one of \<^verbatim>\<open>withLocalPath\<close>, with the prefix \<^verbatim>\<open>immich-\<close>.
\<close>

definition writeFile_tempFile :: "'w sys \<Rightarrow> 'w \<Rightarrow> string \<Rightarrow> string" where
  "writeFile_tempFile sys w filepath =
     path_join sys (tmpdir sys)
       (''immich-write-'' @ show_nat (date_now sys w) @ ''-'' @ basename filepath)"

definition withLocalPath_tempFile :: "'w sys \<Rightarrow> 'w \<Rightarrow> string \<Rightarrow> string" where
  "withLocalPath_tempFile sys w filepath =
     path_join sys (tmpdir sys)
       (''immich-'' @ show_nat (date_now sys w) @ ''-'' @ basename filepath)"

subsection \<open>A reference environment kept in memory\<close>

text \<open>
  A small world on which the calls can be run: a local filesystem with mount points, an
  object store, the process environment, a clock, the table of move intents and the paths
  recorded for assets and persons. It fixes one possible behaviour of the parameters above
  and follows the documented behaviour of \<^verbatim>\<open>node:fs\<close>: a call on a missing file throws
  \<^verbatim>\<open>ENOENT\<close>, and a rename across mount points throws \<^verbatim>\<open>EXDEV\<close>. It is used to run
  \<^verbatim>\<open>moveFile\<close> on concrete inputs.
\<close>

record mem_file =
  f_size :: int
  f_sha1 :: string
  f_atime :: int
  f_mtime :: int

record mem =
  files :: "string \<rightharpoonup> mem_file"
  dirs :: "string list"
  device :: "string \<Rightarrow> nat"
  objects :: "string \<times> string \<times> string \<rightharpoonup> S3Output"
  environ :: "string \<rightharpoonup> string"
  clock :: nat
  rows :: "Move list"
  next_row :: nat
  hashVerificationEnabled :: bool
  asset_paths :: "string \<times> AssetField \<rightharpoonup> string"
  asset_files :: "string \<times> AssetFileType \<rightharpoonup> string"
  person_paths :: "string \<rightharpoonup> string"

definition ENOENT :: js_error where
  "ENOENT = \<lparr>code = Some ''ENOENT'', message = ''no such file or directory''\<rparr>"

definition EXDEV :: js_error where
  "EXDEV = \<lparr>code = Some ''EXDEV'', message = ''cross-device link not permitted''\<rparr>"

definition mem_rename :: "string \<Rightarrow> string \<Rightarrow> mem \<Rightarrow> (js_error + unit) \<times> mem" where
  "mem_rename a b w =
     (case files w a of
        None \<Rightarrow> (Inl ENOENT, w)
      | Some f \<Rightarrow>
          if device w a \<noteq> device w b then (Inl EXDEV, w)
          else (Inr (), w\<lparr>files := ((files w)(a := None))(b \<mapsto> f)\<rparr>))"

definition mem_copyFile :: "string \<Rightarrow> string \<Rightarrow> mem \<Rightarrow> (js_error + unit) \<times> mem" where
  "mem_copyFile a b w =
     (case files w a of
        None \<Rightarrow> (Inl ENOENT, w)
      | Some f \<Rightarrow>
          (Inr (), w\<lparr>files := (files w)(b \<mapsto> f\<lparr>f_atime := int (clock w), f_mtime := int (clock w)\<rparr>)\<rparr>))"

definition mem_access :: "string \<Rightarrow> nat \<Rightarrow> mem \<Rightarrow> (js_error + unit) \<times> mem" where
  "mem_access p mode w =
     (if files w p = None \<and> p \<notin> set (dirs w) then (Inl ENOENT, w) else (Inr (), w))"

definition mem_stat :: "string \<Rightarrow> mem \<Rightarrow> (js_error + Stats) \<times> mem" where
  "mem_stat p w =
     (case files w p of
        None \<Rightarrow> (Inl ENOENT, w)
      | Some f \<Rightarrow>
          (Inr \<lparr>stat_size = f_size f, atime = f_atime f, mtime = f_mtime f,
                birthtime = f_mtime f\<rparr>, w))"

definition mem_utimes :: "string \<Rightarrow> int \<Rightarrow> int \<Rightarrow> mem \<Rightarrow> (js_error + unit) \<times> mem" where
  "mem_utimes p a m w =
     (case files w p of
        None \<Rightarrow> (Inl ENOENT, w)
      | Some f \<Rightarrow> (Inr (), w\<lparr>files := (files w)(p \<mapsto> f\<lparr>f_atime := a, f_mtime := m\<rparr>)\<rparr>))"

definition mem_unlink :: "string \<Rightarrow> mem \<Rightarrow> (js_error + unit) \<times> mem" where
  "mem_unlink p w =
     (case files w p of
        None \<Rightarrow> (Inl ENOENT, w)
      | Some f \<Rightarrow> (Inr (), w\<lparr>files := (files w)(p := None)\<rparr>))"

definition mem_existsSync :: "string \<Rightarrow> mem \<Rightarrow> (js_error + bool) \<times> mem" where
  "mem_existsSync p w = (Inr (files w p \<noteq> None \<or> p \<in> set (dirs w)), w)"

definition mem_mkdirSync :: "string \<Rightarrow> mem \<Rightarrow> (js_error + unit) \<times> mem" where
  "mem_mkdirSync p w = (Inr (), w\<lparr>dirs := p # dirs w\<rparr>)"

definition no_output :: S3Output where
  "no_output = \<lparr>ContentLength = None, LastModified = None, Metadata = None\<rparr>"

text \<open>
  The object store: objects are found under the client's endpoint, the bucket and the
  key; \<^verbatim>\<open>CopySource\<close> is \<^verbatim>\<open>bucket/key\<close>. A copy or a head of a missing key fails, a
  delete succeeds whether the key exists or not.
\<close>

definition mem_send :: "S3Client \<Rightarrow> S3Command \<Rightarrow> mem \<Rightarrow> (js_error + S3Output) \<times> mem" where
  "mem_send c cmd w =
     (case cmd of
        HeadObjectCommand b k \<Rightarrow>
          (case objects w (endpoint c, b, k) of
             None \<Rightarrow> (Inl (Error ''NotFound''), w)
           | Some out \<Rightarrow> (Inr out, w))
      | DeleteObjectCommand b k \<Rightarrow>
          (Inr no_output, w\<lparr>objects := (objects w)((endpoint c, b, k) := None)\<rparr>)
      | CopyObjectCommand b src k md \<Rightarrow>
          (case str_split CHR ''/'' src of
             sb # sk \<Rightarrow>
               (case objects w (endpoint c, sb, str_join CHR ''/'' sk) of
                  None \<Rightarrow> (Inl (Error ''NoSuchKey''), w)
                | Some out \<Rightarrow>
                    (Inr no_output,
                     w\<lparr>objects := (objects w)((endpoint c, b, k) \<mapsto>
                          out\<lparr>LastModified := Some (int (clock w)),
                              Metadata := (case md of None \<Rightarrow> Metadata out | Some m \<Rightarrow> Some m)\<rparr>)\<rparr>))
           | [] \<Rightarrow> (Inl (Error ''InvalidArgument''), w)))"

definition mem_sys :: "mem sys" where
  "mem_sys =
     \<lparr>fs_rename = mem_rename, fs_copyFile = mem_copyFile, fs_access = mem_access,
      fs_stat = mem_stat, fs_utimes = mem_utimes, fs_unlink = mem_unlink,
      fs_existsSync = mem_existsSync, fs_mkdirSync = mem_mkdirSync, s3_send = mem_send,
      process_env = (\<lambda>name w. environ w name), date_now = clock,
      date_parse = (\<lambda>s. 0), toISOString = (\<lambda>t. show_nat (nat t)),
      tmpdir = ''/tmp'', path_join = (\<lambda>d n. d @ ''/'' @ n)\<rparr>"

text \<open>The table of move intents, with one row at most for an entity and a path type.\<close>

definition mem_getByEntity :: "string \<Rightarrow> PathType \<Rightarrow> mem \<Rightarrow> (js_error + Move option) \<times> mem" where
  "mem_getByEntity e t w =
     (Inr (find (\<lambda>m. move_entityId m = e \<and> move_pathType m = t) (rows w)), w)"

definition mem_create :: "string \<Rightarrow> PathType \<Rightarrow> string \<Rightarrow> string \<Rightarrow> mem \<Rightarrow> (js_error + Move) \<times> mem" where
  "mem_create e t a b w =
     (if find (\<lambda>m. move_entityId m = e \<and> move_pathType m = t) (rows w) \<noteq> None
      then (Inl (Error ''duplicate key''), w)
      else (let m = \<lparr>move_id = show_nat (next_row w), move_entityId = e, move_pathType = t,
                     move_oldPath = a, move_newPath = b\<rparr>
            in (Inr m, w\<lparr>rows := rows w @ [m], next_row := Suc (next_row w)\<rparr>)))"

definition mem_update :: "string \<Rightarrow> string \<Rightarrow> string \<Rightarrow> mem \<Rightarrow> (js_error + Move) \<times> mem" where
  "mem_update i a b w =
     (case find (\<lambda>m. move_id m = i) (rows w) of
        None \<Rightarrow> (Inl (Error ''no result''), w)
      | Some m \<Rightarrow>
          (let m' = m\<lparr>move_oldPath := a, move_newPath := b\<rparr>
           in (Inr m', w\<lparr>rows := map (\<lambda>x. if move_id x = i then m' else x) (rows w)\<rparr>)))"

definition mem_delete :: "string \<Rightarrow> mem \<Rightarrow> (js_error + unit) \<times> mem" where
  "mem_delete i w = (Inr (), w\<lparr>rows := filter (\<lambda>m. move_id m \<noteq> i) (rows w)\<rparr>)"

definition mem_hashFile :: "string \<Rightarrow> mem \<Rightarrow> (js_error + string) \<times> mem" where
  "mem_hashFile p w =
     (case files w p of None \<Rightarrow> (Inl ENOENT, w) | Some f \<Rightarrow> (Inr (f_sha1 f), w))"

text \<open>\<^verbatim>\<open>dirname\<close> for a path without trailing slash: the part before the last slash.\<close>

definition mem_dirname :: "string \<Rightarrow> string" where
  "mem_dirname p =
     (let d = str_join CHR ''/'' (butlast (str_split CHR ''/'' p)) in
      if d = [] then (if startsWith p ''/'' then ''/'' else ''.'') else d)"

definition on_world :: "(mem \<Rightarrow> 'a \<times> mem) \<Rightarrow> mem repo_state \<Rightarrow> 'a \<times> mem repo_state" where
  "on_world f s = (case f (world s) of (r, w') \<Rightarrow> (r, s\<lparr>world := w'\<rparr>))"

text \<open>
  The collaborators of \<^verbatim>\<open>moveFile\<close> over this world: the storage methods are the
  repository's own, modelled above, on the in-memory system.
\<close>

definition mem_repos :: "mem repo_state repos" where
  "mem_repos =
     \<lparr>storage_mkdirSync = mkdirSync mem_sys,
      storage_checkFileExists = (\<lambda>p. checkFileExists mem_sys p 0),
      storage_stat = stat mem_sys,
      storage_rename = rename mem_sys,
      storage_copyFile = copyFile mem_sys,
      storage_utimes = utimes mem_sys,
      storage_unlink = unlink mem_sys,
      move_getByEntity = (\<lambda>e t. on_world (mem_getByEntity e t)),
      move_create = (\<lambda>e t a b. on_world (mem_create e t a b)),
      move_update = (\<lambda>i a b. on_world (mem_update i a b)),
      move_delete = (\<lambda>i. on_world (mem_delete i)),
      crypto_hashFile = (\<lambda>p. on_world (mem_hashFile p)),
      getConfig = on_world (\<lambda>w. (Inr (hashVerificationEnabled w), w)),
      asset_update = (\<lambda>i f p. on_world (\<lambda>w. (Inr (), w\<lparr>asset_paths := (asset_paths w)((i, f) \<mapsto> p)\<rparr>))),
      asset_upsertFile = (\<lambda>i t p. on_world (\<lambda>w. (Inr (), w\<lparr>asset_files := (asset_files w)((i, t) \<mapsto> p)\<rparr>))),
      person_update = (\<lambda>i p. on_world (\<lambda>w. (Inr (), w\<lparr>person_paths := (person_paths w)(i \<mapsto> p)\<rparr>))),
      path_dirname = mem_dirname\<rparr>"

text \<open>
  A library on two volumes: \<^verbatim>\<open>/data\<close> on device 0 and \<^verbatim>\<open>/mnt\<close> on device 1, one original
  of 1000 bytes, no intent stored, hash verification enabled.
\<close>

definition photo :: mem_file where
  "photo = \<lparr>f_size = 1000, f_sha1 = ''H'', f_atime = 11, f_mtime = 12\<rparr>"

definition library :: mem where
  "library =
     \<lparr>files = [''/data/lib/u1/2023/a1.jpg'' \<mapsto> photo],
      dirs = [''/data/lib/u1/2023''],
      device = (\<lambda>p. if startsWith p ''/mnt/'' then 1 else 0),
      objects = Map.empty,
      environ = Map.empty,
      clock = 1700000000000,
      rows = [],
      next_row = 1,
      hashVerificationEnabled = True,
      asset_paths = [(''a1'', OriginalPath) \<mapsto> ''/data/lib/u1/2023/a1.jpg''],
      asset_files = Map.empty,
      person_paths = Map.empty\<rparr>"

definition boot :: "mem \<Rightarrow> mem repo_state core_state" where
  "boot w =
     \<lparr>env = \<lparr>world = w, s3Clients = Map.empty, syscalls = [], repo_logs = []\<rparr>,
      trace = [], core_logs = []\<rparr>"

definition the_info :: AssetInfo where
  "the_info = \<lparr>sizeInBytes = 1000, checksum = ''H''\<rparr>"

definition same_volume :: MoveRequest where
  "same_volume =
     \<lparr>entityId = ''a1'', pathType = Original, oldPath = Some ''/data/lib/u1/2023/a1.jpg'',
      newPath = ''/data/lib/u1/2024/a1.jpg'', assetInfo = Some the_info\<rparr>"

definition other_volume :: MoveRequest where
  "other_volume =
     \<lparr>entityId = ''a1'', pathType = Original, oldPath = Some ''/data/lib/u1/2023/a1.jpg'',
      newPath = ''/mnt/lib/u1/2024/a1.jpg'', assetInfo = Some the_info\<rparr>"

text \<open>The world a call leaves behind, started with fresh instrumentation.\<close>

definition world_after :: "MoveRequest \<Rightarrow> mem \<Rightarrow> mem" where
  "world_after req w = world (env (snd (moveFile mem_repos req (boot w))))"

text \<open>
  The library after a crash between the rename and the commit of \<open>same_volume\<close>: the intent
  is stored, the file is at the new path only, the asset still records the old path.
\<close>

definition the_intent :: Move where
  "the_intent =
     \<lparr>move_id = ''1'', move_entityId = ''a1'', move_pathType = Original,
      move_oldPath = ''/data/lib/u1/2023/a1.jpg'', move_newPath = ''/data/lib/u1/2024/a1.jpg''\<rparr>"

definition crashed_after_rename :: mem where
  "crashed_after_rename =
     library\<lparr>files := [''/data/lib/u1/2024/a1.jpg'' \<mapsto> photo],
             dirs := [''/data/lib/u1/2024'', ''/data/lib/u1/2023''],
             rows := [the_intent], next_row := 2\<rparr>"

text \<open>
  Requests whose asset info disagrees with the file: the recorded checksum, or the
  recorded size, is not that of the file on disk.
\<close>

definition other_checksum :: MoveRequest where
  "other_checksum = other_volume\<lparr>assetInfo := Some \<lparr>sizeInBytes = 1000, checksum = ''G''\<rparr>\<rparr>"

definition other_size :: MoveRequest where
  "other_size = other_volume\<lparr>assetInfo := Some \<lparr>sizeInBytes = 999, checksum = ''H''\<rparr>\<rparr>"

text \<open>
  An object store with one object and the credentials of its provider in the
  environment, and the repository state over it, with an empty client cache.
\<close>

definition stored :: S3Output where
  "stored = \<lparr>ContentLength = Some 1000, LastModified = Some 12, Metadata = None\<rparr>"

definition bucket_world :: mem where
  "bucket_world =
     library\<lparr>objects := [(''https://s3.us-east-1.amazonaws.com'', ''photos'', ''u1/a.jpg'') \<mapsto> stored],
             environ := [''AWS_ACCESS_KEY_ID'' \<mapsto> ''AK'', ''AWS_SECRET_ACCESS_KEY'' \<mapsto> ''SK'']\<rparr>"

definition repo_boot :: "mem \<Rightarrow> mem repo_state" where
  "repo_boot w = \<lparr>world = w, s3Clients = Map.empty, syscalls = [], repo_logs = []\<rparr>"

definition aws_client :: S3Client where
  "aws_client =
     \<lparr>region = ''us-east-1'', accessKeyId = ''AK'', secretAccessKey = ''SK'',
      endpoint = ''https://s3.us-east-1.amazonaws.com''\<rparr>"

text \<open>
  Two object stores that each hold a bucket named \<^verbatim>\<open>photos\<close>: the one at Wasabi holds the
  object \<^verbatim>\<open>u1/a.jpg\<close> of 1000 bytes, the one at AWS holds under the same key another
  object, of 7 bytes. The credentials of both providers are in the environment.
\<close>

definition other_object :: S3Output where
  "other_object = \<lparr>ContentLength = Some 7, LastModified = Some 5, Metadata = None\<rparr>"

definition two_stores :: mem where
  "two_stores =
     library\<lparr>objects := [(''https://s3.wasabisys.com'', ''photos'', ''u1/a.jpg'') \<mapsto> stored,
                         (''https://s3.us-east-1.amazonaws.com'', ''photos'', ''u1/a.jpg'') \<mapsto>
                           other_object],
             environ := [''AWS_ACCESS_KEY_ID'' \<mapsto> ''AK'', ''AWS_SECRET_ACCESS_KEY'' \<mapsto> ''SK'',
                         ''WASABI_ACCESS_KEY_ID'' \<mapsto> ''WK'',
                         ''WASABI_SECRET_ACCESS_KEY'' \<mapsto> ''WS'']\<rparr>"

definition wasabi_client :: S3Client where
  "wasabi_client =
     \<lparr>region = ''us-east-1'', accessKeyId = ''WK'', secretAccessKey = ''WS'',
      endpoint = ''https://s3.wasabisys.com''\<rparr>"

text \<open>
  A library with a thumbnail on the first volume, and the request to move it to the
  second volume as \<^verbatim>\<open>moveAssetImage\<close> makes it: without asset info. \<open>mem_tornCopy\<close> is a
  copy that writes the right number of bytes with other content, and \<open>torn_repos\<close> the
  collaborators whose \<^verbatim>\<open>fs.copyFile\<close> is that copy.
\<close>

definition thumb :: mem_file where
  "thumb = \<lparr>f_size = 300, f_sha1 = ''T'', f_atime = 11, f_mtime = 12\<rparr>"

definition gallery :: mem where
  "gallery =
     library\<lparr>files := [''/data/thumbs/u1/a1.webp'' \<mapsto> thumb],
             dirs := [''/data/thumbs/u1''],
             asset_files := [(''a1'', FileThumbnail) \<mapsto> ''/data/thumbs/u1/a1.webp'']\<rparr>"

definition thumbnail_move :: MoveRequest where
  "thumbnail_move =
     \<lparr>entityId = ''a1'', pathType = Thumbnail, oldPath = Some ''/data/thumbs/u1/a1.webp'',
      newPath = ''/mnt/thumbs/u1/a1.webp'', assetInfo = None\<rparr>"

definition mem_tornCopy :: "string \<Rightarrow> string \<Rightarrow> mem \<Rightarrow> (js_error + unit) \<times> mem" where
  "mem_tornCopy a b w =
     (case files w a of
        None \<Rightarrow> (Inl ENOENT, w)
      | Some f \<Rightarrow>
          (Inr (), w\<lparr>files := (files w)(b \<mapsto> f\<lparr>f_sha1 := ''X'', f_atime := int (clock w),
                                               f_mtime := int (clock w)\<rparr>)\<rparr>))"

definition torn_repos :: "mem repo_state repos" where
  "torn_repos = mem_repos\<lparr>storage_copyFile := copyFile (mem_sys\<lparr>fs_copyFile := mem_tornCopy\<rparr>)\<rparr>"

section \<open>Properties\<close>

subsection \<open>Splitting and joining\<close>

lemma str_split_nonempty: "str_split c s \<noteq> []"
  by (induction s) (auto split: list.splits)

lemma str_split_length: "length (str_split c s) = Suc (length (filter (\<lambda>x. x = c) s))"
proof (induction s)
  case Nil
  show ?case by simp
next
  case (Cons x xs)
  then show ?case by (auto split: list.splits)
qed

lemma str_join_split: "str_join c (str_split c s) = s"
proof (induction s)
  case Nil
  show ?case by simp
next
  case (Cons x xs)
  obtain p ps where sp: "str_split c xs = p # ps"
    using str_split_nonempty [of c xs] by (cases "str_split c xs") auto
  with Cons show ?case by (cases ps) auto
qed

lemma str_split_no_sep: "p \<in> set (str_split c s) \<Longrightarrow> c \<notin> set p"
proof (induction s arbitrary: p)
  case Nil
  then show ?case by simp
next
  case (Cons x xs)
  obtain q qs where sp: "str_split c xs = q # qs"
    using str_split_nonempty [of c xs] by (cases "str_split c xs") auto
  with Cons show ?case by (auto split: if_splits)
qed

lemma str_split_rejoin:
  assumes "parseCloudPath p = Inr q"
  shows "host q @ CHR ''/'' # bucket q @ CHR ''/'' # key q = p"
proof -
  let ?parts = "str_split CHR ''/'' p"
  from assms have len: "3 \<le> length ?parts"
    by (simp add: parseCloudPath_def Let_def split: if_splits)
  then obtain a b rest where parts: "?parts = a # b # rest" "rest \<noteq> []"
    by (cases ?parts; cases "tl ?parts"; cases "tl (tl ?parts)") auto
  then obtain c cs where rest: "rest = c # cs" by (cases rest) auto
  from assms len parts have q: "host q = a" "bucket q = b" "key q = str_join CHR ''/'' rest"
    by (auto simp: parseCloudPath_def Let_def)
  have "str_join CHR ''/'' ?parts = p" by (rule str_join_split)
  with parts rest q show ?thesis by simp
qed

subsection \<open>Path parsing and classification\<close>

text \<open>
  C8. Parsing a path into host, bucket and key fails with an error whenever splitting on
  \<^verbatim>\<open>/\<close> yields fewer than three segments; for every path with at least three segments it
  returns the first segment as host, the second as bucket and the remaining segments,
  joined again with \<^verbatim>\<open>/\<close>, as key.
\<close>

theorem parseCloudPath_segments:
  "(length (str_split CHR ''/'' p) < 3 \<longrightarrow> (\<exists>e. parseCloudPath p = Inl e)) \<and>
   (3 \<le> length (str_split CHR ''/'' p) \<longrightarrow>
      parseCloudPath p =
        Inr \<lparr>host = str_split CHR ''/'' p ! 0, bucket = str_split CHR ''/'' p ! 1,
             key = str_join CHR ''/'' (drop 2 (str_split CHR ''/'' p))\<rparr>)"
  by (simp add: parseCloudPath_def Let_def)

theorem parseCloudPath_segments_witness:
  "parseCloudPath ''s3.amazonaws.com/bucket/a/b.jpg'' =
     Inr \<lparr>host = ''s3.amazonaws.com'', bucket = ''bucket'', key = ''a/b.jpg''\<rparr> \<and>
   (\<exists>e. parseCloudPath ''bucket/b.jpg'' = Inl e)"
  using parseCloudPath_segments [of "''s3.amazonaws.com/bucket/a/b.jpg''"]
    parseCloudPath_segments [of "''bucket/b.jpg''"]
  by simp

lemma isCloudPath_iff:
  "isCloudPath p \<longleftrightarrow> \<not> startsWith p ''/'' \<and> 3 \<le> length (str_split CHR ''/'' p) \<and>
     str_includes (str_split CHR ''/'' p ! 0) CHR ''.''"
  by (auto simp: isCloudPath_def Let_def)

lemma isRemote_provider:
  "isRemote p \<longleftrightarrow>
     \<not> startsWith p ''/'' \<and> 3 \<le> length (str_split CHR ''/'' p) \<and>
     str_includes (str_split CHR ''/'' p ! 0) CHR ''.'' \<and>
     detectCloudProvider (str_split CHR ''/'' p ! 0) = S3"
  by (auto simp: isRemote_def isCloudPath_iff parseCloudPath_def Let_def)

lemma isRemote_parse: "isRemote p \<Longrightarrow> \<exists>q. parseCloudPath p = Inr q"
  by (auto simp: isRemote_def split: sum.splits if_splits)

lemma isRemote_absolute: "\<not> isRemote (CHR ''/'' # p)"
  by (simp add: isRemote_provider startsWith_def)

text \<open>
  C6, as the claim states it, fails: a path of three segments whose first segment is the
  Google Cloud Storage host contains a dot and does not start with \<^verbatim>\<open>/\<close>, yet it is not
  classified as remote, because \<^verbatim>\<open>isRemote\<close> also asks for an S3-compatible provider.
\<close>

theorem isRemote_counterexample:
  "\<not> startsWith ''storage.googleapis.com/b/k'' ''/'' \<and>
   3 \<le> length (str_split CHR ''/'' ''storage.googleapis.com/b/k'') \<and>
   str_includes (str_split CHR ''/'' ''storage.googleapis.com/b/k'' ! 0) CHR ''.'' \<and>
   \<not> isRemote ''storage.googleapis.com/b/k''"
  by (simp add: isRemote_def isCloudPath_def parseCloudPath_def detectCloudProvider_def
      startsWith_def endsWith_def str_includes_def Let_def)

text \<open>
  C6, amended. A path is classified as remote if and only if it does not start with \<^verbatim>\<open>/\<close>,
  splitting it on \<^verbatim>\<open>/\<close> yields at least three segments, the first segment contains a dot,
  and the first segment is an S3-compatible host: it ends with \<^verbatim>\<open>.amazonaws.com\<close>, or it
  neither ends with \<^verbatim>\<open>.blob.core.windows.net\<close> nor is \<^verbatim>\<open>storage.googleapis.com\<close>. Every other
  string is classified as local.
\<close>

theorem isRemote_iff:
  "isRemote p \<longleftrightarrow>
     \<not> startsWith p ''/'' \<and> 3 \<le> length (str_split CHR ''/'' p) \<and>
     str_includes (str_split CHR ''/'' p ! 0) CHR ''.'' \<and>
     (endsWith (str_split CHR ''/'' p ! 0) ''.amazonaws.com'' \<or>
      \<not> endsWith (str_split CHR ''/'' p ! 0) ''.blob.core.windows.net'' \<and>
      str_split CHR ''/'' p ! 0 \<noteq> ''storage.googleapis.com'')"
  by (auto simp: isRemote_provider detectCloudProvider_def)

theorem isRemote_iff_witness:
  "isRemote ''s3.amazonaws.com/bucket/a/b.jpg'' \<and> \<not> isRemote ''/data/library/a.jpg'' \<and>
   \<not> isRemote ''library/a.jpg'' \<and> \<not> isRemote ''account.blob.core.windows.net/c/a.jpg''"
  using isRemote_iff [of "''s3.amazonaws.com/bucket/a/b.jpg''"]
    isRemote_iff [of "''/data/library/a.jpg''"] isRemote_iff [of "''library/a.jpg''"]
    isRemote_iff [of "''account.blob.core.windows.net/c/a.jpg''"]
  by (simp add: startsWith_def endsWith_def str_includes_def)

subsection \<open>Executing the effects\<close>

lemma awaitE:
  assumes "await m k s = (r, s')"
  obtains (threw) e where "m s = (Inl e, s')" "r = Inl e"
        | (gave) a s1 where "m s = (Inr a, s1)" "k a s1 = (r, s')"
  using assms by (auto simp: await_def split: prod.splits sum.splits)

lemma try_catchE:
  assumes "try_catch m h s = (r, s')"
  obtains (caught) e s1 where "m s = (Inl e, s1)" "h e s1 = (r, s')"
        | (passed) a where "m s = (Inr a, s')" "r = Inr a"
  using assms by (auto simp: try_catch_def split: prod.splits sum.splits)

lemma sysopE:
  assumes "sysop c f s = (r, s')"
  obtains (threw) e w' where "f (world s) = (Inl e, w')" "r = Inl e"
            "s' = s\<lparr>world := w', syscalls := syscalls s @ [(c, Some e)]\<rparr>"
        | (gave) a w' where "f (world s) = (Inr a, w')" "r = Inr a"
            "s' = s\<lparr>world := w', syscalls := syscalls s @ [(c, None)]\<rparr>"
  using assms by (auto simp: sysop_def split: prod.splits sum.splits)

lemma getS3ClientE:
  assumes "getS3Client sys ep s = (r, s')"
  obtains (threw) e where "r = Inl e" "s' = s"
    | (gave) c where "r = Inr c" "syscalls s' = syscalls s" "world s' = world s"
  using assms by (auto simp: getS3Client_def Let_def split: option.splits sum.splits prod.splits)

lemmas io_simps = lift_def return_def throw_def repo_logger_def send_def

lemma cache_ok_simps [simp]:
  "cache_ok (s\<lparr>world := w\<rparr>) = cache_ok s"
  "cache_ok (s\<lparr>syscalls := l\<rparr>) = cache_ok s"
  "cache_ok (s\<lparr>repo_logs := g\<rparr>) = cache_ok s"
  by (simp_all add: cache_ok_def)

lemma getS3Client_servesE:
  assumes "getS3Client sys ep s = (r, s')" and "cache_ok s"
  obtains (threw) e where "r = Inl e" "s' = s"
    | (gave) c where "r = Inr c" "syscalls s' = syscalls s" "world s' = world s"
        "serves c ep" "cache_ok s'"
  using assms
  by (auto simp: getS3Client_def Let_def cache_ok_def serves_def
      split: option.splits sum.splits prod.splits)

lemma getS3Client_cache_ok:
  assumes "getS3Client sys ep s = (r, s')" and "cache_ok s"
  shows "cache_ok s'"
  using assms by (auto elim: getS3Client_servesE)

lemma rename_remote_same_bucket_aux:
  assumes "isRemote src" "isRemote dst"
    "parseCloudPath src = Inr \<lparr>host = hs, bucket = b, key = ks\<rparr>"
    "parseCloudPath dst = Inr \<lparr>host = ht, bucket = b, key = kt\<rparr>"
    "rename sys src dst s = (r, s')" "cache_ok s"
  shows "\<exists>evs. syscalls s' = syscalls s @ evs \<and>
           rename_remote_run \<lparr>host = hs, bucket = b, key = ks\<rparr> \<lparr>host = ht, bucket = b, key = kt\<rparr> evs r"
proof -
  let ?ps = "\<lparr>host = hs, bucket = b, key = ks\<rparr>" and ?pd = "\<lparr>host = ht, bucket = b, key = kt\<rparr>"
  from assms(1-5) have run:
    "await (getS3Client sys ht) (\<lambda>client.
       await (send sys client (copy_command ?ps ?pd)) (\<lambda>_. unlink sys src)) s = (r, s')"
    by (simp add: rename_def getS3BucketAndKey_def copy_command_def io_simps await_def)
  from run show ?thesis
  proof (cases rule: awaitE)
    case (threw e)
    then have "s' = s" by (auto elim: getS3ClientE)
    with threw show ?thesis
      using rename_remote_run.no_target_client [where ps = ?ps and pd = ?pd and e = e] by simp
  next
    case (gave c s1)
    from gave(1) assms(6) have c: "serves c ht" and ok1: "cache_ok s1"
      and sc1: "syscalls s1 = syscalls s"
      by (auto elim: getS3Client_servesE)
    from gave(2) show ?thesis
    proof (cases rule: awaitE)
      case (threw e)
      then have "syscalls s' = syscalls s1 @ [(S3Send c (copy_command ?ps ?pd), Some e)]"
        by (auto simp: send_def elim!: sysopE)
      with threw sc1 c show ?thesis
        using rename_remote_run.copy_failed [where ps = ?ps and pd = ?pd and e = e and c = c]
        by simp
    next
      case (gave a s2)
      then have sc2: "syscalls s2 = syscalls s1 @ [(S3Send c (copy_command ?ps ?pd), None)]"
        and ok2: "cache_ok s2"
        using ok1 by (auto simp: send_def elim!: sysopE)
      from gave(2) assms(1,3) ok2 sc2 sc1 c show ?thesis
        using rename_remote_run.no_source_client [where ps = ?ps and pd = ?pd and c = c]
          rename_remote_run.delete_failed [where ps = ?ps and pd = ?pd and c = c]
          rename_remote_run.renamed [where ps = ?ps and pd = ?pd and c = c]
        by (auto simp: unlink_def io_simps elim!: try_catchE awaitE sysopE getS3Client_servesE)
    qed
  qed
qed

lemma rename_remote_same_bucket:
  assumes "isRemote src" "isRemote dst" "parseCloudPath src = Inr ps" "parseCloudPath dst = Inr pd"
    "bucket ps = bucket pd" "rename sys src dst s = (r, s')" "cache_ok s"
  shows "\<exists>evs. syscalls s' = syscalls s @ evs \<and> rename_remote_run ps pd evs r"
  using assms rename_remote_same_bucket_aux [of src dst "host ps" "bucket ps" "key ps" "host pd" "key pd" sys s r s']
  by (cases ps; cases pd) simp

lemma rename_remote_other_bucket:
  assumes "isRemote src" "isRemote dst" "parseCloudPath src = Inr ps" "parseCloudPath dst = Inr pd"
    "bucket ps \<noteq> bucket pd" "rename sys src dst s = (r, s')"
  shows "s' = s \<and> (\<exists>e. r = Inl e)"
  using assms
  by (auto simp: rename_def getS3BucketAndKey_def io_simps elim!: awaitE)

lemma rename_mixed:
  assumes "isRemote src \<noteq> isRemote dst" "rename sys src dst s = (r, s')"
  shows "s' = s \<and> (\<exists>e. r = Inl e)"
  using assms by (auto simp: rename_def io_simps)

lemma rename_local:
  assumes "\<not> isRemote src" "\<not> isRemote dst" "rename sys src dst s = (r, s')"
  shows "\<exists>w'. fs_rename sys src dst (world s) = (r, w') \<and> world s' = w' \<and>
           syscalls s' = syscalls s @ [(FsRename src dst, case r of Inl e \<Rightarrow> Some e | Inr u \<Rightarrow> None)]"
  using assms by (auto simp: rename_def elim!: sysopE)

text \<open>
  What \<^verbatim>\<open>rename\<close> does, by the classification of its two paths, from a state whose client
  cache is consistent. When both are local it makes the one call \<^verbatim>\<open>fs.rename\<close>, whose
  result and world are its own. When both are remote with the same bucket name it sends a
  copy to the target's host and then, only after the copy has succeeded, the delete of
  the source key to the source's host (\<open>rename_remote_run\<close>); the bucket names are
  compared, the hosts are not. When both are remote with different bucket names, or one
  is remote and the other local, it throws and the state is untouched: no call has left
  the process and no client has been created.
\<close>

theorem rename_dispatch:
  assumes "rename sys src dst s = (r, s')" and "cache_ok s"
  shows "(\<not> isRemote src \<and> \<not> isRemote dst \<longrightarrow>
            (\<exists>w'. fs_rename sys src dst (world s) = (r, w') \<and> world s' = w' \<and>
               syscalls s' = syscalls s @
                 [(FsRename src dst, case r of Inl e \<Rightarrow> Some e | Inr u \<Rightarrow> None)])) \<and>
         (isRemote src \<and> isRemote dst \<longrightarrow>
            (\<exists>ps pd. parseCloudPath src = Inr ps \<and> parseCloudPath dst = Inr pd \<and>
               (if bucket ps = bucket pd
                then \<exists>evs. syscalls s' = syscalls s @ evs \<and> rename_remote_run ps pd evs r
                else s' = s \<and> (\<exists>e. r = Inl e)))) \<and>
         (isRemote src \<noteq> isRemote dst \<longrightarrow> s' = s \<and> (\<exists>e. r = Inl e))"
proof -
  have local: "\<not> isRemote src \<and> \<not> isRemote dst \<longrightarrow>
            (\<exists>w'. fs_rename sys src dst (world s) = (r, w') \<and> world s' = w' \<and>
               syscalls s' = syscalls s @
                 [(FsRename src dst, case r of Inl e \<Rightarrow> Some e | Inr u \<Rightarrow> None)])"
    using assms(1) rename_local by blast
  have mixed: "isRemote src \<noteq> isRemote dst \<longrightarrow> s' = s \<and> (\<exists>e. r = Inl e)"
    using assms(1) rename_mixed by blast
  have remote: "\<exists>ps pd. parseCloudPath src = Inr ps \<and> parseCloudPath dst = Inr pd \<and>
               (if bucket ps = bucket pd
                then \<exists>evs. syscalls s' = syscalls s @ evs \<and> rename_remote_run ps pd evs r
                else s' = s \<and> (\<exists>e. r = Inl e))"
    if rem: "isRemote src \<and> isRemote dst"
  proof -
    obtain ps pd where p: "parseCloudPath src = Inr ps" "parseCloudPath dst = Inr pd"
      using rem isRemote_parse by blast
    show ?thesis
    proof (cases "bucket ps = bucket pd")
      case True
      with rem p assms show ?thesis
        using rename_remote_same_bucket [of src dst ps pd sys s r s'] by simp
    next
      case False
      with rem p assms(1) show ?thesis
        using rename_remote_other_bucket [of src dst ps pd sys s r s'] by simp
    qed
  qed
  from local mixed remote show ?thesis by blast
qed

lemma checkFileExists_returns:
  "\<exists>b s'. checkFileExists sys p mode s = (Inr b, s') \<and>
      (b \<longleftrightarrow> (\<exists>c. syscalls s' = syscalls s @ [(c, None)]))"
proof -
  obtain r s' where run: "checkFileExists sys p mode s = (r, s')" by (cases "checkFileExists sys p mode s")
  then show ?thesis
    by (auto simp: checkFileExists_def io_simps
      elim!: try_catchE awaitE sysopE getS3ClientE split: if_splits)
qed

lemma checkFileExists_config_error:
  assumes "isRemote p" "parseCloudPath p = Inr q" "getS3Client sys (host q) s = (Inl e, s1)"
  shows "checkFileExists sys p mode s = (Inr False, s) \<and> stat sys p s = (Inl e, s)"
  using assms
  by (auto simp: checkFileExists_def stat_def io_simps await_def try_catch_def
      elim!: getS3ClientE)

text \<open>
  C10. \<^verbatim>\<open>checkFileExists\<close> never throws: for every path, mode and state it returns a
  boolean, which is true exactly when the one probing call it made (the access to the
  local file, or the head request for the object) succeeded. When the client for a
  remote path cannot be had, because the endpoint is not supported or its credentials are
  missing, it returns false without any call and leaves the state as it was, where
  \<^verbatim>\<open>stat\<close> on the same path throws that configuration error.
\<close>

theorem checkFileExists_never_throws:
  "(\<exists>b s'. checkFileExists sys p mode s = (Inr b, s') \<and>
      (b \<longleftrightarrow> (\<exists>c. syscalls s' = syscalls s @ [(c, None)]))) \<and>
   (\<forall>q e s1. isRemote p \<and> parseCloudPath p = Inr q \<and>
        getS3Client sys (host q) s = (Inl e, s1) \<longrightarrow>
      checkFileExists sys p mode s = (Inr False, s) \<and> stat sys p s = (Inl e, s))"
  using checkFileExists_returns [of sys p mode s] checkFileExists_config_error [of p _ sys s]
  by blast

subsection \<open>Every call of \<^verbatim>\<open>moveFile\<close> is a run\<close>

lemma invokeE:
  assumes "invoke c wrap f s = (r, s')"
  obtains (threw) e w' where "f (env s) = (Inl e, w')" "r = Inl e"
            "s' = s\<lparr>env := w', trace := trace s @ [(c, Threw e)]\<rparr>"
        | (gave) a w' where "f (env s) = (Inr a, w')" "r = Inr a"
            "s' = s\<lparr>env := w', trace := trace s @ [(c, Gave (wrap a))]\<rparr>"
  using assms by (auto simp: invoke_def split: prod.splits sum.splits)

lemma loggerE:
  assumes "logger l s = (r, s')"
  obtains "r = Inr ()" "s' = s\<lparr>core_logs := core_logs s @ [l]\<rparr>"
  using assms by (auto simp: logger_def)

lemma verify_is_run:
  assumes "verifyNewPathContentsMatchesExpected R old new info s = (r, s')"
  shows "\<exists>vs. trace s' = trace s @ vs \<and> verify_run info old new vs r"
  using assms
  by (auto simp: verifyNewPathContentsMatchesExpected_def Let_def return_def
        expected_size_def
      elim!: awaitE invokeE loggerE intro!: verify_run.intros
      split: if_splits option.splits)

lemma verifyE:
  assumes "verifyNewPathContentsMatchesExpected R old new info s = (r, s')"
  obtains vs where "trace s' = trace s @ vs" "verify_run info old new vs r"
  using verify_is_run [OF assms] by blast

lemma relocate_is_run:
  assumes "relocate R old new info s = (r, s')"
  shows "\<exists>evs. trace s' = trace s @ evs \<and> relocate_run info old new evs r"
  using assms
  by (auto simp: relocate_def return_def
      elim!: try_catchE awaitE invokeE loggerE verifyE
      intro!: relocate_run.intros fallback_run.intros
      split: if_splits)

lemma probing_simps [simp]:
  "probing (MkdirSync d)" "probing (GetByEntity i t)" "probing (MoveCreate i t a b)"
  "probing (MoveUpdate i a b)" "probing (CheckFileExists p)" "probing (Stat p)"
  "probing GetConfig" "probing (HashFile p)"
  "\<not> probing (MoveDelete i)" "\<not> probing (Rename a b)" "\<not> probing (CopyFile a b)"
  "\<not> probing (Utimes p x y)" "\<not> probing (Unlink p)" "\<not> probing (AssetUpdate i f p)"
  "\<not> probing (AssetUpsertFile i ft p)" "\<not> probing (PersonUpdate i p)"
  by (simp_all add: probing_def)

lemma relocateE:
  assumes "relocate R old new info s = (r, s')"
  obtains evs where "trace s' = trace s @ evs" "relocate_run info old new evs r"
  using relocate_is_run [OF assms] by blast

lemma verify_run_probing: "verify_run info old new vs r \<Longrightarrow> \<forall>ev\<in>set vs. probing (fst ev)"
  by (erule verify_run.cases) simp_all

lemma ensureFolders_probing:
  assumes "ensureFolders R p s = (r, s')"
  obtains evs where "trace s' = trace s @ evs" "\<forall>ev\<in>set evs. probing (fst ev)"
  using assms
  by (auto simp: ensureFolders_def Let_def return_def elim!: invokeE split: if_splits)

lemma finishIncompleteMove_probing:
  assumes "finishIncompleteMove R req move s = (r, s')"
  obtains evs where "trace s' = trace s @ evs" "\<forall>ev\<in>set evs. probing (fst ev)"
  using assms
  by (auto simp: finishIncompleteMove_def Let_def return_def
      elim!: awaitE invokeE loggerE verifyE dest!: verify_run_probing split: if_splits)

lemma savePathE:
  assumes "savePath R pt i np s = (r, s')"
  obtains (threw) e where "r = Inl e" "trace s' = trace s @ [(save_call pt i np, Threw e)]"
        | (gave) "r = Inr ()" "trace s' = trace s @ [(save_call pt i np, Gave Unit)]"
  using assms
  by (cases pt) (auto simp: savePath_def save_call_def elim!: invokeE)

lemma commit_is_run:
  assumes "await (savePath R (pathType req) (entityId req) (newPath req))
             (\<lambda>_. invoke (MoveDelete mid) (\<lambda>_. Unit) (move_delete R mid)) s = (r, s')"
  shows "\<exists>post. trace s' = trace s @ post \<and> commit_run req mid post r"
  using assms
  by (auto elim!: awaitE invokeE savePathE intro!: commit_run.intros)

lemma commitE:
  assumes "await (savePath R (pathType req) (entityId req) (newPath req))
             (\<lambda>_. invoke (MoveDelete mid) (\<lambda>_. Unit) (move_delete R mid)) s = (r, s')"
  obtains post where "trace s' = trace s @ post" "commit_run req mid post r"
  using commit_is_run [OF assms] by blast

lemma after_intent_run:
  assumes "after_intent R req entry s = (r, s')" "\<forall>ev\<in>set pre. probing (fst ev)"
  shows "\<exists>evs. trace s' = trace s @ evs \<and> moveFile_run req (pre @ evs) r"
proof (cases entry)
  case None
  with assms show ?thesis by (auto simp: after_intent_def return_def intro!: moveFile_run.stopped)
next
  case (Some move)
  show ?thesis
  proof (cases "pathType req = Original \<and> assetInfo req = None")
    case True
    with Some assms show ?thesis
      by (auto simp: after_intent_def return_def elim!: awaitE loggerE intro!: moveFile_run.stopped)
  next
    case False
    note info = this
    show ?thesis
    proof (cases "move_oldPath move = newPath req")
      case True
      with Some info assms(1) obtain post where
        "trace s' = trace s @ post" "commit_run req (move_id move) post r"
        by (auto simp: after_intent_def return_def elim!: awaitE commitE)
      with assms(2) show ?thesis
        using moveFile_run.in_place [of pre req "move_id move" post r] by simp
    next
      case False
      with Some info assms(1) have
        run: "await (relocate R (move_oldPath move) (newPath req) (assetInfo req)) (\<lambda>proceed.
                    if \<not> proceed then return ()
                    else await (savePath R (pathType req) (entityId req) (newPath req)) (\<lambda>_.
                         invoke (MoveDelete (move_id move)) (\<lambda>_. Unit)
                           (move_delete R (move_id move)))) s = (r, s')"
        by (auto simp: after_intent_def split: if_splits)
      from run show ?thesis
      proof (cases rule: awaitE)
        case (threw e)
        from threw(1) obtain evs where
          "trace s' = trace s @ evs"
          "relocate_run (assetInfo req) (move_oldPath move) (newPath req) evs (Inl e)"
          by (rule relocateE)
        with assms(2) False threw(2) show ?thesis
          using moveFile_run.relocation_threw [of pre "move_oldPath move" req evs e] by simp
      next
        case (gave proceed s1)
        from gave(1) obtain evs where
          evs: "trace s1 = trace s @ evs"
          "relocate_run (assetInfo req) (move_oldPath move) (newPath req) evs (Inr proceed)"
          by (rule relocateE)
        show ?thesis
        proof (cases proceed)
          case True
          with gave(2) obtain post where
            "trace s' = trace s1 @ post" "commit_run req (move_id move) post r"
            by (auto elim!: commitE)
          with evs True assms(2) False show ?thesis
            using moveFile_run.relocated [of pre "move_oldPath move" req evs "move_id move" post r]
            by simp
        next
          case False
          with gave(2) have "s' = s1" "r = Inr ()" by (simp_all add: return_def)
          with evs False assms(2) \<open>move_oldPath move \<noteq> newPath req\<close> show ?thesis
            using moveFile_run.relocation_returned [of pre "move_oldPath move" req evs] by simp
        qed
      qed
    qed
  qed
qed

lemma moveFile_after_intent:
  "moveFile R req =
     (if falsy (oldPath req) \<or> oldPath req = Some (newPath req)
      then return ()
      else await (ensureFolders R (newPath req)) (\<lambda>_.
           await (invoke (GetByEntity (entityId req) (pathType req)) Found
                    (move_getByEntity R (entityId req) (pathType req))) (\<lambda>found.
           await (case found of
                    Some move \<Rightarrow> finishIncompleteMove R req move
                  | None \<Rightarrow>
                      await (invoke (MoveCreate (entityId req) (pathType req)
                                       (the (oldPath req)) (newPath req)) Row
                               (move_create R (entityId req) (pathType req)
                                  (the (oldPath req)) (newPath req)))
                        (\<lambda>m. return (Some m))) (after_intent R req))))"
  unfolding moveFile_def after_intent_def by (rule refl)

lemma obtain_entry_probing:
  assumes "(case found of
              Some move \<Rightarrow> finishIncompleteMove R req move
            | None \<Rightarrow>
                await (invoke (MoveCreate (entityId req) (pathType req)
                                 (the (oldPath req)) (newPath req)) Row
                         (move_create R (entityId req) (pathType req)
                            (the (oldPath req)) (newPath req)))
                  (\<lambda>m. return (Some m))) s = (r, s')"
  obtains evs where "trace s' = trace s @ evs" "\<forall>ev\<in>set evs. probing (fst ev)"
  using assms
  by (cases found)
     (auto simp: return_def elim!: awaitE invokeE finishIncompleteMove_probing)

lemma invoke_probing:
  assumes "invoke c wrap f s = (r, s')" "probing c"
  obtains evs where "trace s' = trace s @ evs" "\<forall>ev\<in>set evs. probing (fst ev)"
  using assms by (auto elim!: invokeE)

lemma moveFile_is_run:
  assumes "moveFile R req s = (r, s')"
  shows "\<exists>evs. trace s' = trace s @ evs \<and> moveFile_run req evs r"
proof (cases "falsy (oldPath req) \<or> oldPath req = Some (newPath req)")
  case True
  with assms have "s' = s" by (simp add: moveFile_def return_def)
  then show ?thesis by (auto intro!: moveFile_run.stopped)
next
  case False
  with assms have run:
    "await (ensureFolders R (newPath req)) (\<lambda>_.
           await (invoke (GetByEntity (entityId req) (pathType req)) Found
                    (move_getByEntity R (entityId req) (pathType req))) (\<lambda>found.
           await (case found of
                    Some move \<Rightarrow> finishIncompleteMove R req move
                  | None \<Rightarrow>
                      await (invoke (MoveCreate (entityId req) (pathType req)
                                       (the (oldPath req)) (newPath req)) Row
                               (move_create R (entityId req) (pathType req)
                                  (the (oldPath req)) (newPath req)))
                        (\<lambda>m. return (Some m))) (after_intent R req))) s = (r, s')"
    by (simp add: moveFile_after_intent)
  from run show ?thesis
  proof (cases rule: awaitE)
    case (threw e)
    from threw(1) obtain evs where "trace s' = trace s @ evs" "\<forall>ev\<in>set evs. probing (fst ev)"
      by (rule ensureFolders_probing)
    then show ?thesis by (auto intro!: moveFile_run.stopped)
  next
    case (gave u s1)
    from gave(1) obtain evs1 where
      e1: "trace s1 = trace s @ evs1" "\<forall>ev\<in>set evs1. probing (fst ev)"
      by (rule ensureFolders_probing)
    from gave(2) show ?thesis
    proof (cases rule: awaitE)
      case (threw e)
      from threw(1) obtain evs where "trace s' = trace s1 @ evs" "\<forall>ev\<in>set evs. probing (fst ev)"
        by (rule invoke_probing) simp
      with e1 have "trace s' = trace s @ (evs1 @ evs)" "\<forall>ev\<in>set (evs1 @ evs). probing (fst ev)"
        by auto
      then show ?thesis using moveFile_run.stopped [of "evs1 @ evs" req r] by simp
    next
      case (gave found s2)
      from gave(1) obtain evs2 where
        e2: "trace s2 = trace s1 @ evs2" "\<forall>ev\<in>set evs2. probing (fst ev)"
        by (rule invoke_probing) simp
      from gave(2) show ?thesis
      proof (cases rule: awaitE)
        case (threw e)
        from threw(1) obtain evs where
          "trace s' = trace s2 @ evs" "\<forall>ev\<in>set evs. probing (fst ev)"
          by (rule obtain_entry_probing)
        with e1 e2 have "trace s' = trace s @ (evs1 @ evs2 @ evs)"
          "\<forall>ev\<in>set (evs1 @ evs2 @ evs). probing (fst ev)"
          by auto
        then show ?thesis using moveFile_run.stopped [of "evs1 @ evs2 @ evs" req r] by simp
      next
        case (gave entry s3)
        from gave(1) obtain evs3 where
          e3: "trace s3 = trace s2 @ evs3" "\<forall>ev\<in>set evs3. probing (fst ev)"
          by (rule obtain_entry_probing)
        with e1 e2 have pre: "trace s3 = trace s @ (evs1 @ evs2 @ evs3)"
          "\<forall>ev\<in>set (evs1 @ evs2 @ evs3). probing (fst ev)"
          by auto
        from after_intent_run [OF gave(2) pre(2)] pre(1) show ?thesis by auto
      qed
    qed
  qed
qed

subsection \<open>The anatomy of a run\<close>

lemma unique_split:
  assumes "xs @ a # ys = before @ b # after" "P b" "\<forall>x\<in>set xs. \<not> P x" "\<forall>y\<in>set ys. \<not> P y"
  shows "before = xs \<and> b = a \<and> after = ys"
  using assms
proof (induction xs arbitrary: before)
  case Nil
  then show ?case by (cases before) auto
next
  case (Cons x xs)
  then show ?case by (cases before) auto
qed

lemma verified_iff: "verify_run info old new vs (Inr True) \<longleftrightarrow> verified info old new vs"
proof
  assume "verify_run info old new vs (Inr True)"
  then show "verified info old new vs"
    by (cases rule: verify_run.cases) (auto simp: verified_def expected_size_def)
next
  assume "verified info old new vs"
  then show "verify_run info old new vs (Inr True)"
    unfolding verified_def
    by (auto simp: expected_size_def
        intro!: verify_run.size_verified verify_run.hash_compared)
qed

lemma mismatch_iff: "verify_run info old new vs (Inr False) \<longleftrightarrow> mismatch info old new vs"
proof
  assume "verify_run info old new vs (Inr False)"
  then show "mismatch info old new vs"
    by (cases rule: verify_run.cases) (auto simp: mismatch_def expected_size_def)
next
  assume "mismatch info old new vs"
  then show "verify_run info old new vs (Inr False)"
    unfolding mismatch_def
    by (auto simp: expected_size_def
        intro!: verify_run.size_mismatch verify_run.hash_compared)
qed

lemma verify_run_prefix_free:
  assumes "verify_run info old new vs r" "verify_run info old new vs' r'" "vs @ t = vs' @ t'"
  shows "vs = vs' \<and> r = r' \<and> t = t'"
  using assms(1)
proof (cases rule: verify_run.cases)
  case (stat_old_threw e)
  with assms(2,3) show ?thesis by (auto elim!: verify_run.cases)
next
  case (stat_new_threw os e)
  with assms(2,3) show ?thesis by (auto elim!: verify_run.cases)
next
  case (size_mismatch ns os)
  with assms(2,3) show ?thesis by (auto elim!: verify_run.cases simp: expected_size_def)
next
  case (config_threw ns os e)
  with assms(2,3) show ?thesis by (auto elim!: verify_run.cases simp: expected_size_def)
next
  case (size_verified ns os enabled)
  with assms(2,3) show ?thesis by (auto elim!: verify_run.cases simp: expected_size_def)
next
  case (hash_threw ns ai os e)
  with assms(2,3) show ?thesis by (auto elim!: verify_run.cases simp: expected_size_def)
next
  case (hash_compared ns ai ok h os)
  with assms(2,3) show ?thesis by (auto elim!: verify_run.cases simp: expected_size_def)
qed

lemma committing_simps [simp]:
  "committing (AssetUpdate i f p)" "committing (AssetUpsertFile i ft p)"
  "committing (PersonUpdate i p)" "committing (MoveDelete i)"
  "\<not> committing (MkdirSync d)" "\<not> committing (GetByEntity i t)"
  "\<not> committing (MoveCreate i t a b)" "\<not> committing (MoveUpdate i a b)"
  "\<not> committing (CheckFileExists p)" "\<not> committing (Stat p)" "\<not> committing GetConfig"
  "\<not> committing (HashFile p)" "\<not> committing (Rename a b)" "\<not> committing (CopyFile a b)"
  "\<not> committing (Utimes p x y)" "\<not> committing (Unlink p)"
  by (simp_all add: committing_def)

lemma removing_simps [simp]:
  "removing (Unlink p)" "removing (Rename a b)"
  "\<not> removing (AssetUpdate i f p)" "\<not> removing (AssetUpsertFile i ft p)"
  "\<not> removing (PersonUpdate i p)" "\<not> removing (MoveDelete i)"
  "\<not> removing (MkdirSync d)" "\<not> removing (GetByEntity i t)"
  "\<not> removing (MoveCreate i t a b)" "\<not> removing (MoveUpdate i a b)"
  "\<not> removing (CheckFileExists p)" "\<not> removing (Stat p)" "\<not> removing GetConfig"
  "\<not> removing (HashFile p)" "\<not> removing (CopyFile a b)"
  "\<not> removing (Utimes p x y)"
  by (simp_all add: removing_def)

lemma is_rename_simps [simp]:
  "\<not> is_rename (MkdirSync d)" "\<not> is_rename (GetByEntity i t)" "\<not> is_rename (MoveCreate i t a b)"
  "\<not> is_rename (MoveUpdate i a b)" "\<not> is_rename (MoveDelete i)" "\<not> is_rename (CheckFileExists p)"
  "\<not> is_rename (Stat p)" "\<not> is_rename GetConfig" "\<not> is_rename (HashFile p)"
  "is_rename (Rename a b)" "\<not> is_rename (CopyFile a b)" "\<not> is_rename (Utimes p x y)"
  "\<not> is_rename (Unlink p)" "\<not> is_rename (AssetUpdate i f p)" "\<not> is_rename (AssetUpsertFile i ft p)"
  "\<not> is_rename (PersonUpdate i p)"
  by (simp_all add: is_rename_def)

lemma is_copy_simps [simp]:
  "\<not> is_copy (MkdirSync d)" "\<not> is_copy (GetByEntity i t)" "\<not> is_copy (MoveCreate i t a b)"
  "\<not> is_copy (MoveUpdate i a b)" "\<not> is_copy (MoveDelete i)" "\<not> is_copy (CheckFileExists p)"
  "\<not> is_copy (Stat p)" "\<not> is_copy GetConfig" "\<not> is_copy (HashFile p)"
  "\<not> is_copy (Rename a b)" "is_copy (CopyFile a b)" "\<not> is_copy (Utimes p x y)"
  "\<not> is_copy (Unlink p)" "\<not> is_copy (AssetUpdate i f p)" "\<not> is_copy (AssetUpsertFile i ft p)"
  "\<not> is_copy (PersonUpdate i p)"
  by (simp_all add: is_copy_def)

lemma is_unlink_simps [simp]:
  "\<not> is_unlink (MkdirSync d)" "\<not> is_unlink (GetByEntity i t)" "\<not> is_unlink (MoveCreate i t a b)"
  "\<not> is_unlink (MoveUpdate i a b)" "\<not> is_unlink (MoveDelete i)" "\<not> is_unlink (CheckFileExists p)"
  "\<not> is_unlink (Stat p)" "\<not> is_unlink GetConfig" "\<not> is_unlink (HashFile p)"
  "\<not> is_unlink (Rename a b)" "\<not> is_unlink (CopyFile a b)" "\<not> is_unlink (Utimes p x y)"
  "is_unlink (Unlink p)" "\<not> is_unlink (AssetUpdate i f p)" "\<not> is_unlink (AssetUpsertFile i ft p)"
  "\<not> is_unlink (PersonUpdate i p)"
  by (simp_all add: is_unlink_def)

lemma removing_iff: "removing c \<longleftrightarrow> is_rename c \<or> is_unlink c"
  by (cases c) simp_all

lemma probing_kind: "probing c \<Longrightarrow> \<not> is_rename c \<and> \<not> is_copy c \<and> \<not> is_unlink c"
  by (cases c) simp_all

lemma committing_kind: "committing c \<Longrightarrow> \<not> is_rename c \<and> \<not> is_copy c \<and> \<not> is_unlink c"
  by (cases c) simp_all

lemma save_call_committing [simp]: "committing (save_call pt i np)"
  by (cases pt) (simp_all add: save_call_def)

lemma save_call_kind [simp]:
  "\<not> is_rename (save_call pt i np)" "\<not> is_copy (save_call pt i np)"
  "\<not> is_unlink (save_call pt i np)"
  using committing_kind [of "save_call pt i np"] save_call_committing [of pt i np] by simp_all

lemma probing_not_committing: "probing c \<Longrightarrow> \<not> committing c"
  by (cases c) simp_all

lemma probing_not_removing: "probing c \<Longrightarrow> \<not> removing c"
  by (cases c) simp_all

lemma committing_not_removing: "committing c \<Longrightarrow> \<not> removing c"
  by (cases c) simp_all

lemma commit_run_committing:
  "commit_run req mid post r \<Longrightarrow> \<forall>ev\<in>set post. committing (fst ev)"
  by (erule commit_run.cases) simp_all

lemma relocate_run_after_rename:
  assumes "relocate_run (assetInfo req) old (newPath req) evs rr"
    and "rr = Inr True \<and> (\<exists>mid. commit_run req mid post r) \<or>
         rr = Inr False \<and> post = [] \<and> r = Inr () \<or>
         (\<exists>e'. rr = Inl e' \<and> post = [] \<and> r = Inl e')"
  shows "\<exists>rn rest. evs @ post = (Rename old (newPath req), rn) # rest \<and> after_rename req old rn rest r"
  using assms(1)
proof (cases rule: relocate_run.cases)
  case renamed
  with assms(2) show ?thesis by (auto simp: after_rename_def)
next
  case (rename_failed e)
  with assms(2) show ?thesis by (auto simp: after_rename_def)
next
  case (fell_back e fb)
  with assms(2) show ?thesis unfolding after_rename_def by fastforce
qed

lemma anatomy_step:
  assumes "\<forall>ev\<in>set pre. probing (fst ev)" "old \<noteq> newPath req"
    "relocate_run (assetInfo req) old (newPath req) evs rr"
    "rr = Inr True \<and> (\<exists>mid. commit_run req mid post r) \<or>
     rr = Inr False \<and> post = [] \<and> r = Inr () \<or>
     (\<exists>e'. rr = Inl e' \<and> post = [] \<and> r = Inl e')"
  shows "\<exists>pre' old' rn rest. pre @ evs @ post = pre' @ (Rename old' (newPath req), rn) # rest \<and>
            old' \<noteq> newPath req \<and> (\<forall>ev\<in>set pre'. probing (fst ev)) \<and>
            after_rename req old' rn rest r"
proof -
  from relocate_run_after_rename [OF assms(3,4)] obtain rn rest where
    "evs @ post = (Rename old (newPath req), rn) # rest" "after_rename req old rn rest r"
    by blast
  with assms(1,2) have
    "pre @ evs @ post = pre @ (Rename old (newPath req), rn) # rest \<and>
     old \<noteq> newPath req \<and> (\<forall>ev\<in>set pre. probing (fst ev)) \<and> after_rename req old rn rest r"
    by simp
  then show ?thesis by blast
qed

lemma moveFile_run_anatomy:
  assumes "moveFile_run req tr r"
  shows "(\<forall>ev\<in>set tr. probing (fst ev) \<or> committing (fst ev)) \<or>
         (\<exists>pre old rn rest. tr = pre @ (Rename old (newPath req), rn) # rest \<and>
            old \<noteq> newPath req \<and> (\<forall>ev\<in>set pre. probing (fst ev)) \<and>
            after_rename req old rn rest r)"
  using assms
proof (cases rule: moveFile_run.cases)
  case stopped
  then show ?thesis by auto
next
  case (relocation_threw pre old evs e)
  from anatomy_step [OF relocation_threw(3,4,5), of "[]" r] relocation_threw(1,2)
  show ?thesis by simp
next
  case (relocation_returned pre old evs)
  from anatomy_step [OF relocation_returned(3,4,5), of "[]" r] relocation_returned(1,2)
  show ?thesis by simp
next
  case (relocated pre old evs mid post)
  then have "\<exists>mid. commit_run req mid post r" by blast
  with anatomy_step [OF relocated(2,3,4), of post r] relocated(1)
  show ?thesis by simp
next
  case (in_place pre mid post)
  then have "\<forall>ev\<in>set tr. probing (fst ev) \<or> committing (fst ev)"
    using commit_run_committing [of req mid post r] by auto
  then show ?thesis ..
qed

lemma verify_run_calm:
  "verify_run info old new vs r \<Longrightarrow>
     \<forall>ev\<in>set vs. \<not> removing (fst ev) \<and> \<not> committing (fst ev)"
  using verify_run_probing probing_not_removing probing_not_committing by blast

lemma verify_run_threw:
  "verify_run info old new vs (Inl e) \<Longrightarrow> vs \<noteq> [] \<and> snd (last vs) = Threw e"
  by (erule verify_run.cases) auto

lemma fallback_outcomes:
  assumes "fallback_run (assetInfo req) old (newPath req) fb rr"
    and "rr = Inr True \<and> (\<exists>mid. commit_run req mid post r) \<or>
         rr = Inr False \<and> post = [] \<and> r = Inr () \<or>
         (\<exists>e'. rr = Inl e' \<and> post = [] \<and> r = Inl e')"
  shows "moved_by_copy req old (fb @ post) r \<or> copy_rejected req old (fb @ post) r \<or>
         copy_aborted req old (fb @ post) r"
  using assms(1)
proof (cases rule: fallback_run.cases)
  case (copy_threw e)
  with assms(2) have "copy_aborted req old (fb @ post) r"
    by (auto simp: copy_aborted_def)
  then show ?thesis by simp
next
  case (verify_threw vs e)
  with assms(2) verify_run_calm [OF verify_threw(3)] verify_run_threw [OF verify_threw(3)]
  have "copy_aborted req old (fb @ post) r"
    by (auto simp: copy_aborted_def)
  then show ?thesis by simp
next
  case (rejected vs)
  with assms(2) have "copy_rejected req old (fb @ post) r"
    by (auto simp: copy_rejected_def mismatch_iff)
  then show ?thesis by simp
next
  case (rejected_unlink_threw vs e)
  with assms(2) have "copy_rejected req old (fb @ post) r"
    by (auto simp: copy_rejected_def mismatch_iff)
  then show ?thesis by simp
next
  case (stat_threw vs e)
  with assms(2) verify_run_calm [OF stat_threw(3)]
  have "copy_aborted req old (fb @ post) r"
    by (auto simp: copy_aborted_def)
  then show ?thesis by simp
next
  case (utimes_threw vs st e)
  with assms(2) verify_run_calm [OF utimes_threw(3)]
  have "copy_aborted req old (fb @ post) r"
    by (auto simp: copy_aborted_def)
  then show ?thesis by simp
next
  case (moved vs st out)
  with assms(2) obtain mid where "commit_run req mid post r" by auto
  with moved have "moved_by_copy req old (fb @ post) r"
    unfolding moved_by_copy_def
    by (intro exI [of _ vs] exI [of _ st] exI [of _ out] exI [of _ post] exI [of _ mid])
       (simp add: verified_iff)
  then show ?thesis by simp
qed

lemma after_rename_threw:
  assumes "after_rename req old (Threw e) rest r"
  shows "(code e \<noteq> Some ''EXDEV'' \<longrightarrow> rest = [] \<and> r = Inr ()) \<and>
         (code e = Some ''EXDEV'' \<longrightarrow>
            moved_by_copy req old rest r \<or> copy_rejected req old rest r \<or>
            copy_aborted req old rest r)"
  using assms fallback_outcomes [of req old]
  unfolding after_rename_def by fastforce

lemma after_rename_gave:
  assumes "after_rename req old (Gave x) rest r"
  shows "\<exists>mid. commit_run req mid rest r"
  using assms unfolding after_rename_def by auto

subsection \<open>The relocation\<close>

lemma split_first:
  assumes "xs @ a # ys = before @ b # after" "P b" "\<forall>x\<in>set xs. \<not> P x"
  shows "(before = xs \<and> b = a \<and> after = ys) \<or> (\<exists>mid. before = xs @ a # mid \<and> ys = mid @ b # after)"
  using assms
proof (induction xs arbitrary: before)
  case Nil
  then show ?case by (cases before) auto
next
  case (Cons x xs)
  then show ?case by (cases before) auto
qed

lemma verify_run_kind:
  "verify_run info old new vs r \<Longrightarrow>
     \<forall>ev\<in>set vs. \<not> is_rename (fst ev) \<and> \<not> is_copy (fst ev) \<and> \<not> is_unlink (fst ev)"
  using verify_run_probing probing_kind by blast

lemma commit_run_kind:
  "commit_run req mid post r \<Longrightarrow>
     \<forall>ev\<in>set post. \<not> is_rename (fst ev) \<and> \<not> is_copy (fst ev) \<and> \<not> is_unlink (fst ev)"
  by (erule commit_run.cases) simp_all

lemma fallback_run_no_rename:
  "fallback_run info old new fb rr \<Longrightarrow> \<forall>ev\<in>set fb. \<not> is_rename (fst ev)"
  by (erule fallback_run.cases) (fastforce dest!: verify_run_kind)+

lemma after_rename_no_rename:
  assumes "after_rename req old rn rest r"
  shows "\<forall>ev\<in>set rest. \<not> is_rename (fst ev)"
  using assms unfolding after_rename_def
  by (fastforce dest!: fallback_run_no_rename commit_run_kind)

lemma run_anatomy:
  assumes "moveFile R req s = (r, s')" "trace s = []"
  shows "(\<forall>ev\<in>set (trace s'). probing (fst ev) \<or> committing (fst ev)) \<or>
         (\<exists>pre old rn rest. trace s' = pre @ (Rename old (newPath req), rn) # rest \<and>
            old \<noteq> newPath req \<and> (\<forall>ev\<in>set pre. probing (fst ev)) \<and>
            after_rename req old rn rest r)"
proof -
  from moveFile_is_run [OF assms(1)] assms(2) have "moveFile_run req (trace s') r" by auto
  then show ?thesis by (rule moveFile_run_anatomy)
qed

lemma rename_event:
  assumes "moveFile R req s = (r, s')" "trace s = []"
    and "trace s' = before @ (Rename p q, rn) # rest"
  shows "q = newPath req \<and> p \<noteq> q \<and> (\<forall>ev\<in>set before. probing (fst ev)) \<and>
         after_rename req p rn rest r"
proof -
  from run_anatomy [OF assms(1,2)] show ?thesis
  proof
    assume "\<forall>ev\<in>set (trace s'). probing (fst ev) \<or> committing (fst ev)"
    with assms(3) show ?thesis by auto
  next
    assume "\<exists>pre old rn rest. trace s' = pre @ (Rename old (newPath req), rn) # rest \<and>
            old \<noteq> newPath req \<and> (\<forall>ev\<in>set pre. probing (fst ev)) \<and>
            after_rename req old rn rest r"
    then obtain pre old rn' rest' where
      tr: "trace s' = pre @ (Rename old (newPath req), rn') # rest'" and
      old: "old \<noteq> newPath req" and pre: "\<forall>ev\<in>set pre. probing (fst ev)" and
      ar: "after_rename req old rn' rest' r"
      by blast
    let ?P = "\<lambda>ev. is_rename (fst ev)"
    from tr assms(3) have eq:
      "pre @ (Rename old (newPath req), rn') # rest' = before @ (Rename p q, rn) # rest"
      by simp
    have "?P (Rename p q, rn)" by simp
    moreover from pre have "\<forall>x\<in>set pre. \<not> ?P x" using probing_kind by blast
    moreover from after_rename_no_rename [OF ar] have "\<forall>y\<in>set rest'. \<not> ?P y" .
    ultimately have "before = pre \<and> (Rename p q, rn) = (Rename old (newPath req), rn') \<and> rest = rest'"
      using unique_split [OF eq, of ?P] by blast
    with old pre ar show ?thesis by simp
  qed
qed

text \<open>
  C4. When the rename fails, what follows depends on the error code alone. With a code
  other than \<^verbatim>\<open>EXDEV\<close> nothing follows: the call returns, every call made so far was a
  probing one (no file moved, copied or deleted, nothing committed), and the intent is not
  deleted. With \<^verbatim>\<open>EXDEV\<close> the fallback runs: copy old to new, verification, the source's
  \<^verbatim>\<open>atime\<close> and \<^verbatim>\<open>mtime\<close> set on the destination, deletion of the source, then the commit
  (\<open>moved_by_copy\<close>); or the verification rejects the copy (\<open>copy_rejected\<close>); or one of
  these calls throws and the error is propagated with nothing removed or committed
  (\<open>copy_aborted\<close>).
\<close>

theorem rename_failure_handling:
  assumes "moveFile R req s = (r, s')" and "trace s = []"
    and "trace s' = before @ (Rename p q, Threw e) # rest"
  shows "q = newPath req \<and> (\<forall>ev\<in>set before. probing (fst ev)) \<and>
         (code e \<noteq> Some ''EXDEV'' \<longrightarrow> rest = [] \<and> r = Inr ()) \<and>
         (code e = Some ''EXDEV'' \<longrightarrow>
            moved_by_copy req p rest r \<or> copy_rejected req p rest r \<or> copy_aborted req p rest r)"
  using rename_event [OF assms] after_rename_threw [of req p e rest r] by blast

lemma verified_calm:
  "verified info old new vs \<Longrightarrow>
     \<forall>ev\<in>set vs. \<not> removing (fst ev) \<and> \<not> committing (fst ev) \<and> \<not> is_copy (fst ev)"
  unfolding verified_def by auto

lemma mismatch_calm:
  "mismatch info old new vs \<Longrightarrow>
     \<forall>ev\<in>set vs. \<not> removing (fst ev) \<and> \<not> committing (fst ev) \<and> \<not> is_copy (fst ev)"
  unfolding mismatch_def by auto

lemma commit_run_not_removing:
  "commit_run req mid post r \<Longrightarrow> \<forall>ev\<in>set post. \<not> removing (fst ev)"
  by (erule commit_run.cases) (simp_all add: committing_not_removing)

lemma removal_after_rename:
  assumes ar: "after_rename req old rn rest r"
    and dec: "rest = mid @ (c, out) # after" and rem: "removing c"
  shows "(\<exists>e vs. rn = Threw e \<and> code e = Some ''EXDEV'' \<and> c = Unlink (newPath req) \<and>
            mid = (CopyFile old (newPath req), Gave Unit) # vs \<and>
            mismatch (assetInfo req) old (newPath req) vs) \<or>
         (\<exists>e vs st. rn = Threw e \<and> code e = Some ''EXDEV'' \<and> c = Unlink old \<and>
            mid = (CopyFile old (newPath req), Gave Unit) # vs @
                  [(Stat old, Gave (StatsOf st)),
                   (Utimes (newPath req) (atime st) (mtime st), Gave Unit)] \<and>
            verified (assetInfo req) old (newPath req) vs)"
proof (cases rn)
  case (Gave x)
  with ar obtain m where "commit_run req m rest r" using after_rename_gave by blast
  from commit_run_not_removing [OF this] dec rem show ?thesis by auto
next
  case (Threw e)
  note ex = after_rename_threw [OF ar [unfolded Threw]]
  show ?thesis
  proof (cases "code e = Some ''EXDEV''")
    case False
    with ex dec show ?thesis by simp
  next
    case True
    with ex consider (moved) "moved_by_copy req old rest r"
      | (rejected) "copy_rejected req old rest r" | (aborted) "copy_aborted req old rest r"
      by blast
    then show ?thesis
    proof cases
      case moved
      then obtain vs st out' post m where
        rest: "rest = (CopyFile old (newPath req), Gave Unit) # vs @
               [(Stat old, Gave (StatsOf st)),
                (Utimes (newPath req) (atime st) (mtime st), Gave Unit),
                (Unlink old, out')] @ post" and
        v: "verified (assetInfo req) old (newPath req) vs" and
        cm: "commit_run req m post r"
        unfolding moved_by_copy_def by blast
      let ?xs = "(CopyFile old (newPath req), Gave Unit) # vs @
               [(Stat old, Gave (StatsOf st)),
                (Utimes (newPath req) (atime st) (mtime st), Gave Unit)]"
      from rest dec have eq: "?xs @ (Unlink old, out') # post = mid @ (c, out) # after" by simp
      have "\<forall>x\<in>set ?xs. \<not> removing (fst x)" using verified_calm [OF v] by auto
      moreover have "\<forall>y\<in>set post. \<not> removing (fst y)" by (rule commit_run_not_removing [OF cm])
      ultimately have "mid = ?xs \<and> (c, out) = (Unlink old, out')"
        using unique_split [OF eq, of "\<lambda>ev. removing (fst ev)"] rem by simp
      with Threw True v show ?thesis by simp
    next
      case rejected
      then obtain vs out' where
        rest: "rest = (CopyFile old (newPath req), Gave Unit) # vs @ [(Unlink (newPath req), out')]" and
        m: "mismatch (assetInfo req) old (newPath req) vs"
        unfolding copy_rejected_def by blast
      let ?xs = "(CopyFile old (newPath req), Gave Unit) # vs"
      from rest dec have eq: "?xs @ (Unlink (newPath req), out') # [] = mid @ (c, out) # after" by simp
      have "\<forall>x\<in>set ?xs. \<not> removing (fst x)" using mismatch_calm [OF m] by auto
      then have "mid = ?xs \<and> (c, out) = (Unlink (newPath req), out')"
        using unique_split [OF eq, of "\<lambda>ev. removing (fst ev)"] rem by simp
      with Threw True m show ?thesis by simp
    next
      case aborted
      with dec rem show ?thesis unfolding copy_aborted_def by auto
    qed
  qed
qed

text \<open>
  C1, amended. Every call of a run that removes a file from its path is accounted for. It
  is the rename of the source to the destination itself, made after probing calls only;
  or the deletion of the destination, after a copy whose verification found a mismatch;
  or the deletion of the source, and then the rename had failed with \<^verbatim>\<open>EXDEV\<close>, the copy
  had succeeded, the verification had passed and the timestamps had been set, all before
  the deletion is attempted. The verification that passed is \<open>verified\<close>: the size of the
  destination equals the expected size, which is the recorded size when the request
  carries asset info and the size of the source otherwise; and the hash of the
  destination was read and equals the recorded checksum when hash verification is
  enabled and the request carries asset info. Without asset info no hash is read.
\<close>

theorem removals_accounted:
  assumes "moveFile R req s = (r, s')" and "trace s = []"
    and "trace s' = before @ (c, out) # after" and "removing c"
  shows "(\<exists>old. c = Rename old (newPath req) \<and> old \<noteq> newPath req \<and>
            (\<forall>ev\<in>set before. probing (fst ev))) \<or>
         (\<exists>pre old e vs. c = Unlink (newPath req) \<and> code e = Some ''EXDEV'' \<and>
            before = pre @ (Rename old (newPath req), Threw e) #
                     (CopyFile old (newPath req), Gave Unit) # vs \<and>
            mismatch (assetInfo req) old (newPath req) vs) \<or>
         (\<exists>pre old e vs st. c = Unlink old \<and> old \<noteq> newPath req \<and> code e = Some ''EXDEV'' \<and>
            before = pre @ (Rename old (newPath req), Threw e) #
                     (CopyFile old (newPath req), Gave Unit) # vs @
                     [(Stat old, Gave (StatsOf st)),
                      (Utimes (newPath req) (atime st) (mtime st), Gave Unit)] \<and>
            verified (assetInfo req) old (newPath req) vs)"
proof -
  from run_anatomy [OF assms(1,2)] show ?thesis
  proof
    assume "\<forall>ev\<in>set (trace s'). probing (fst ev) \<or> committing (fst ev)"
    with assms(3,4) show ?thesis
      using probing_not_removing committing_not_removing by fastforce
  next
    assume "\<exists>pre old rn rest. trace s' = pre @ (Rename old (newPath req), rn) # rest \<and>
            old \<noteq> newPath req \<and> (\<forall>ev\<in>set pre. probing (fst ev)) \<and>
            after_rename req old rn rest r"
    then obtain pre old rn rest where
      tr: "trace s' = pre @ (Rename old (newPath req), rn) # rest" and
      old: "old \<noteq> newPath req" and pre: "\<forall>ev\<in>set pre. probing (fst ev)" and
      ar: "after_rename req old rn rest r"
      by blast
    from tr assms(3) have eq:
      "pre @ (Rename old (newPath req), rn) # rest = before @ (c, out) # after" by simp
    from pre have "\<forall>x\<in>set pre. \<not> removing (fst x)" using probing_not_removing by blast
    with split_first [OF eq, of "\<lambda>ev. removing (fst ev)"] assms(4)
    consider (here) "before = pre" "(c, out) = (Rename old (newPath req), rn)"
      | (later) mid where "before = pre @ (Rename old (newPath req), rn) # mid"
          "rest = mid @ (c, out) # after"
      by auto
    then show ?thesis
    proof cases
      case here
      with old pre show ?thesis by simp
    next
      case later
      from removal_after_rename [OF ar later(2) assms(4)] later(1) old show ?thesis
        by fastforce
    qed
  qed
qed

lemma fallback_run_split:
  assumes "fallback_run info old new fb rr"
  shows "(\<exists>e. fb = [(CopyFile old new, Threw e)] \<and> rr = Inl e) \<or>
         (\<exists>vs vr tl. fb = (CopyFile old new, Gave Unit) # vs @ tl \<and>
            verify_run info old new vs vr \<and> (\<forall>ev\<in>set tl. \<not> is_copy (fst ev)) \<and>
            (vr = Inr False \<longrightarrow>
               (\<exists>out. tl = [(Unlink new, out)] \<and>
                  rr = (case out of Threw e \<Rightarrow> Inl e | Gave x \<Rightarrow> Inr False))))"
  using assms
proof (cases rule: fallback_run.cases)
  case (copy_threw e)
  then show ?thesis by simp
next
  case (verify_threw vs e)
  then have "fb = (CopyFile old new, Gave Unit) # vs @ [] \<and> verify_run info old new vs (Inl e)"
    by simp
  then show ?thesis by (intro disjI2 exI [of _ vs] exI [of _ "Inl e"] exI [of _ "[]"]) simp
next
  case (rejected vs)
  then show ?thesis
    by (intro disjI2 exI [of _ vs] exI [of _ "Inr False"] exI [of _ "[(Unlink new, Gave Unit)]"])
       simp
next
  case (rejected_unlink_threw vs e)
  then show ?thesis
    by (intro disjI2 exI [of _ vs] exI [of _ "Inr False"] exI [of _ "[(Unlink new, Threw e)]"])
       simp
next
  case (stat_threw vs e)
  then show ?thesis
    by (intro disjI2 exI [of _ vs] exI [of _ "Inr True"] exI [of _ "[(Stat old, Threw e)]"])
       simp
next
  case (utimes_threw vs st e)
  then show ?thesis
    by (intro disjI2 exI [of _ vs] exI [of _ "Inr True"]
          exI [of _ "[(Stat old, Gave (StatsOf st)), (Utimes new (atime st) (mtime st), Threw e)]"])
       simp
next
  case (moved vs st out)
  then show ?thesis
    by (intro disjI2 exI [of _ vs] exI [of _ "Inr True"]
          exI [of _ "[(Stat old, Gave (StatsOf st)), (Utimes new (atime st) (mtime st), Gave Unit),
                      (Unlink old, out)]"])
       simp
qed

lemma rejection_after_rename:
  assumes ar: "after_rename req old rn rest r"
    and dec: "rest = mid @ (CopyFile p q, Gave Unit) # vs @ tail"
    and mm: "mismatch (assetInfo req) p q vs"
  shows "\<exists>e out. rn = Threw e \<and> code e = Some ''EXDEV'' \<and> mid = [] \<and> p = old \<and>
           q = newPath req \<and> tail = [(Unlink q, out)] \<and>
           r = (case out of Threw e' \<Rightarrow> Inl e' | Gave x \<Rightarrow> Inr ())"
proof -
  let ?P = "\<lambda>ev. is_copy (fst ev)"
  from ar consider
    (ok) m where "rn = Gave Unit" "commit_run req m rest r"
    | (other) e where "rn = Threw e" "code e \<noteq> Some ''EXDEV''" "rest = []"
    | (fallback) e fb rr post where "rn = Threw e" "code e = Some ''EXDEV''"
        "fallback_run (assetInfo req) old (newPath req) fb rr" "rest = fb @ post"
        "rr = Inr True \<and> (\<exists>m. commit_run req m post r) \<or>
         rr = Inr False \<and> post = [] \<and> r = Inr () \<or>
         (\<exists>e'. rr = Inl e' \<and> post = [] \<and> r = Inl e')"
    unfolding after_rename_def by blast
  then show ?thesis
  proof cases
    case ok
    from commit_run_kind [OF ok(2)] dec show ?thesis by auto
  next
    case other
    with dec show ?thesis by simp
  next
    case fallback
    have post: "\<forall>ev\<in>set post. \<not> ?P ev"
      using fallback(5) commit_run_kind by fastforce
    from fallback_run_split [OF fallback(3)] show ?thesis
    proof
      assume "\<exists>e. fb = [(CopyFile old (newPath req), Threw e)] \<and> rr = Inl e"
      then obtain e' where fb: "fb = [(CopyFile old (newPath req), Threw e')]" by blast
      with fallback(4) dec have
        eq: "[] @ (CopyFile old (newPath req), Threw e') # post =
             mid @ (CopyFile p q, Gave Unit) # (vs @ tail)" by simp
      from unique_split [OF eq, of ?P] post show ?thesis by simp
    next
      assume "\<exists>vs vr tl. fb = (CopyFile old (newPath req), Gave Unit) # vs @ tl \<and>
            verify_run (assetInfo req) old (newPath req) vs vr \<and>
            (\<forall>ev\<in>set tl. \<not> is_copy (fst ev)) \<and>
            (vr = Inr False \<longrightarrow>
               (\<exists>out. tl = [(Unlink (newPath req), out)] \<and>
                  rr = (case out of Threw e \<Rightarrow> Inl e | Gave x \<Rightarrow> Inr False)))"
      then obtain vs' vr tl where
        fb: "fb = (CopyFile old (newPath req), Gave Unit) # vs' @ tl" and
        vr: "verify_run (assetInfo req) old (newPath req) vs' vr" and
        tl: "\<forall>ev\<in>set tl. \<not> ?P ev" and
        rej: "vr = Inr False \<longrightarrow>
               (\<exists>out. tl = [(Unlink (newPath req), out)] \<and>
                  rr = (case out of Threw e \<Rightarrow> Inl e | Gave x \<Rightarrow> Inr False))"
        by blast
      from fb fallback(4) dec have
        eq: "[] @ (CopyFile old (newPath req), Gave Unit) # (vs' @ tl @ post) =
             mid @ (CopyFile p q, Gave Unit) # (vs @ tail)" by simp
      have "\<forall>y\<in>set (vs' @ tl @ post). \<not> ?P y"
        using verify_run_kind [OF vr] tl post by auto
      with unique_split [OF eq, of ?P] have
        m: "mid = []" "p = old" "q = newPath req" "vs @ tail = vs' @ tl @ post"
        by simp_all
      from mm m have "verify_run (assetInfo req) old (newPath req) vs (Inr False)"
        by (simp add: mismatch_iff)
      from verify_run_prefix_free [OF this vr m(4)] have
        same: "vs = vs'" "vr = Inr False" "tail = tl @ post" by simp_all
      with rej obtain out where
        out: "tl = [(Unlink (newPath req), out)]"
          "rr = (case out of Threw e \<Rightarrow> Inl e | Gave x \<Rightarrow> Inr False)"
        by blast
      with fallback(5) have "post = [] \<and> r = (case out of Threw e' \<Rightarrow> Inl e' | Gave x \<Rightarrow> Inr ())"
        by (cases out) auto
      with fallback(1,2) m same out show ?thesis by simp
    qed
  qed
qed

text \<open>
  C2. In the copy-based fallback, when the verification of the copy finds a mismatch
  (the size of the destination differs from the expected size, or hash verification is
  enabled and its hash differs from the expected checksum), the one call that follows is
  the deletion of the destination. Before the copy there were only probing calls and the
  failed rename, so the source is never removed, no path is committed and the intent is
  not deleted; the call returns normally when the deletion does (and propagates its error
  otherwise).
\<close>

theorem rejected_copy:
  assumes "moveFile R req s = (r, s')" and "trace s = []"
    and "trace s' = before @ (CopyFile p q, Gave Unit) # vs @ rest"
    and "mismatch (assetInfo req) p q vs"
  shows "\<exists>pre e out.
           before = pre @ [(Rename p q, Threw e)] \<and> code e = Some ''EXDEV'' \<and>
           (\<forall>ev\<in>set pre. probing (fst ev)) \<and> q = newPath req \<and> p \<noteq> q \<and>
           rest = [(Unlink q, out)] \<and>
           r = (case out of Threw e' \<Rightarrow> Inl e' | Gave x \<Rightarrow> Inr ())"
proof -
  let ?P = "\<lambda>ev. is_copy (fst ev)"
  from run_anatomy [OF assms(1,2)] show ?thesis
  proof
    assume "\<forall>ev\<in>set (trace s'). probing (fst ev) \<or> committing (fst ev)"
    with assms(3) show ?thesis by auto
  next
    assume "\<exists>pre old rn rest. trace s' = pre @ (Rename old (newPath req), rn) # rest \<and>
            old \<noteq> newPath req \<and> (\<forall>ev\<in>set pre. probing (fst ev)) \<and>
            after_rename req old rn rest r"
    then obtain pre old rn rest' where
      tr: "trace s' = pre @ (Rename old (newPath req), rn) # rest'" and
      old: "old \<noteq> newPath req" and pre: "\<forall>ev\<in>set pre. probing (fst ev)" and
      ar: "after_rename req old rn rest' r"
      by blast
    from tr assms(3) have eq:
      "pre @ (Rename old (newPath req), rn) # rest' =
       before @ (CopyFile p q, Gave Unit) # (vs @ rest)" by simp
    from pre have "\<forall>x\<in>set pre. \<not> ?P x" using probing_kind by blast
    with split_first [OF eq, of ?P]
    obtain mid where mid: "before = pre @ (Rename old (newPath req), rn) # mid"
      "rest' = mid @ (CopyFile p q, Gave Unit) # vs @ rest"
      by auto
    from rejection_after_rename [OF ar mid(2) assms(4)] obtain e out where
      "rn = Threw e" "code e = Some ''EXDEV''" "mid = []" "p = old" "q = newPath req"
      "rest = [(Unlink q, out)]" "r = (case out of Threw e' \<Rightarrow> Inl e' | Gave x \<Rightarrow> Inr ())"
      by blast
    with mid(1) old pre show ?thesis by simp
  qed
qed

subsection \<open>Runs in the reference environment\<close>

lemmas effect_defs = return_def throw_def await_def try_catch_def lift_def

lemmas repository_defs = sysop_def repo_logger_def getS3Client_def getS3Credentials_def send_def
  unlink_def rename_def copyFile_def stat_def utimes_def checkFileExists_def mkdirSync_def
  metadata_get_def metadata_with_def getS3BucketAndKey_def

lemmas core_defs = invoke_def logger_def ensureFolders_def savePath_def
  verifyNewPathContentsMatchesExpected_def finishIncompleteMove_def relocate_def moveFile_def
  falsy_def

lemmas mem_defs = mem_rename_def mem_copyFile_def mem_access_def mem_stat_def mem_utimes_def
  mem_unlink_def mem_existsSync_def mem_mkdirSync_def mem_send_def mem_sys_def
  mem_getByEntity_def mem_create_def mem_update_def mem_delete_def mem_hashFile_def
  mem_dirname_def on_world_def mem_repos_def ENOENT_def EXDEV_def Error_def
  mem_tornCopy_def torn_repos_def

lemmas scenario_defs = photo_def library_def boot_def the_info_def same_volume_def
  other_volume_def world_after_def the_intent_def crashed_after_rename_def other_checksum_def
  other_size_def stored_def bucket_world_def repo_boot_def aws_client_def
  other_object_def two_stores_def wasabi_client_def thumb_def gallery_def thumbnail_move_def

lemmas run_simps = effect_defs repository_defs core_defs mem_defs scenario_defs
  isRemote_absolute startsWith_def str_includes_def Let_def show_nat.simps

lemmas path_simps = isRemote_def isCloudPath_def parseCloudPath_def detectCloudProvider_def
  endsWith_def regionOf_def

lemma first_call_result: "fst (moveFile mem_repos same_volume (boot library)) = Inr ()"
  by (simp add: run_simps)

lemma first_call_world:
  "asset_paths (world_after same_volume library) (''a1'', OriginalPath) =
     Some ''/data/lib/u1/2024/a1.jpg''"
  "rows (world_after same_volume library) = []"
  "files (world_after same_volume library) ''/data/lib/u1/2023/a1.jpg'' = None"
  "files (world_after same_volume library) ''/data/lib/u1/2024/a1.jpg'' = Some photo"
  by (simp_all add: run_simps)

lemma second_call_result:
  "fst (moveFile mem_repos same_volume (boot (world_after same_volume library))) = Inr ()"
  by (simp add: run_simps)

lemma second_call_trace:
  "trace (snd (moveFile mem_repos same_volume (boot (world_after same_volume library)))) =
     [(MkdirSync ''/data/lib/u1/2024'', Gave Unit),
      (GetByEntity ''a1'' Original, Gave (Found None)),
      (MoveCreate ''a1'' Original ''/data/lib/u1/2023/a1.jpg'' ''/data/lib/u1/2024/a1.jpg'',
       Gave (Row \<lparr>move_id = ''2'', move_entityId = ''a1'', move_pathType = Original,
                   move_oldPath = ''/data/lib/u1/2023/a1.jpg'',
                   move_newPath = ''/data/lib/u1/2024/a1.jpg''\<rparr>)),
      (Rename ''/data/lib/u1/2023/a1.jpg'' ''/data/lib/u1/2024/a1.jpg'', Threw ENOENT)]"
  by (simp add: run_simps)

lemma second_call_syscalls:
  "syscalls (env (snd (moveFile mem_repos same_volume (boot (world_after same_volume library))))) =
     [(FsExistsSync ''/data/lib/u1/2024'', None),
      (FsRename ''/data/lib/u1/2023/a1.jpg'' ''/data/lib/u1/2024/a1.jpg'', Some ENOENT)]"
  by (simp add: run_simps)

lemma second_call_rows:
  "rows (world_after same_volume (world_after same_volume library)) =
     [\<lparr>move_id = ''2'', move_entityId = ''a1'', move_pathType = Original,
       move_oldPath = ''/data/lib/u1/2023/a1.jpg'',
       move_newPath = ''/data/lib/u1/2024/a1.jpg''\<rparr>]"
  by (simp add: run_simps)

lemma other_volume_result: "fst (moveFile mem_repos other_volume (boot library)) = Inr ()"
  by (simp add: run_simps)

lemma other_volume_trace:
  "trace (snd (moveFile mem_repos other_volume (boot library))) =
     [(MkdirSync ''/mnt/lib/u1/2024'', Gave Unit),
      (GetByEntity ''a1'' Original, Gave (Found None)),
      (MoveCreate ''a1'' Original ''/data/lib/u1/2023/a1.jpg'' ''/mnt/lib/u1/2024/a1.jpg'',
       Gave (Row \<lparr>move_id = ''1'', move_entityId = ''a1'', move_pathType = Original,
                   move_oldPath = ''/data/lib/u1/2023/a1.jpg'',
                   move_newPath = ''/mnt/lib/u1/2024/a1.jpg''\<rparr>)),
      (Rename ''/data/lib/u1/2023/a1.jpg'' ''/mnt/lib/u1/2024/a1.jpg'', Threw EXDEV),
      (CopyFile ''/data/lib/u1/2023/a1.jpg'' ''/mnt/lib/u1/2024/a1.jpg'', Gave Unit),
      (Stat ''/data/lib/u1/2023/a1.jpg'',
       Gave (StatsOf \<lparr>stat_size = 1000, atime = 11, mtime = 12, birthtime = 12\<rparr>)),
      (Stat ''/mnt/lib/u1/2024/a1.jpg'',
       Gave (StatsOf \<lparr>stat_size = 1000, atime = 1700000000000, mtime = 1700000000000,
                       birthtime = 1700000000000\<rparr>)),
      (GetConfig, Gave (Bool True)),
      (HashFile ''/mnt/lib/u1/2024/a1.jpg'', Gave (Hash ''H'')),
      (Stat ''/data/lib/u1/2023/a1.jpg'',
       Gave (StatsOf \<lparr>stat_size = 1000, atime = 11, mtime = 12, birthtime = 12\<rparr>)),
      (Utimes ''/mnt/lib/u1/2024/a1.jpg'' 11 12, Gave Unit),
      (Unlink ''/data/lib/u1/2023/a1.jpg'', Gave Unit),
      (AssetUpdate ''a1'' OriginalPath ''/mnt/lib/u1/2024/a1.jpg'', Gave Unit),
      (MoveDelete ''1'', Gave Unit)]"
  by (simp add: run_simps)

lemma other_volume_world:
  "files (world_after other_volume library) ''/data/lib/u1/2023/a1.jpg'' = None"
  "files (world_after other_volume library) ''/mnt/lib/u1/2024/a1.jpg'' = Some photo"
  "rows (world_after other_volume library) = []"
  "asset_paths (world_after other_volume library) (''a1'', OriginalPath) =
     Some ''/mnt/lib/u1/2024/a1.jpg''"
  by (simp_all add: run_simps)

lemma other_checksum_result: "fst (moveFile mem_repos other_checksum (boot library)) = Inr ()"
  by (simp add: run_simps)

lemma other_checksum_trace:
  "trace (snd (moveFile mem_repos other_checksum (boot library))) =
     [(MkdirSync ''/mnt/lib/u1/2024'', Gave Unit),
      (GetByEntity ''a1'' Original, Gave (Found None)),
      (MoveCreate ''a1'' Original ''/data/lib/u1/2023/a1.jpg'' ''/mnt/lib/u1/2024/a1.jpg'',
       Gave (Row \<lparr>move_id = ''1'', move_entityId = ''a1'', move_pathType = Original,
                   move_oldPath = ''/data/lib/u1/2023/a1.jpg'',
                   move_newPath = ''/mnt/lib/u1/2024/a1.jpg''\<rparr>)),
      (Rename ''/data/lib/u1/2023/a1.jpg'' ''/mnt/lib/u1/2024/a1.jpg'', Threw EXDEV)] @
     (CopyFile ''/data/lib/u1/2023/a1.jpg'' ''/mnt/lib/u1/2024/a1.jpg'', Gave Unit) #
     [(Stat ''/data/lib/u1/2023/a1.jpg'',
       Gave (StatsOf \<lparr>stat_size = 1000, atime = 11, mtime = 12, birthtime = 12\<rparr>)),
      (Stat ''/mnt/lib/u1/2024/a1.jpg'',
       Gave (StatsOf \<lparr>stat_size = 1000, atime = 1700000000000, mtime = 1700000000000,
                       birthtime = 1700000000000\<rparr>)),
      (GetConfig, Gave (Bool True)),
      (HashFile ''/mnt/lib/u1/2024/a1.jpg'', Gave (Hash ''H''))] @
     [(Unlink ''/mnt/lib/u1/2024/a1.jpg'', Gave Unit)]"
  by (simp add: run_simps)

lemma other_checksum_world:
  "files (world_after other_checksum library) ''/data/lib/u1/2023/a1.jpg'' = Some photo"
  "files (world_after other_checksum library) ''/mnt/lib/u1/2024/a1.jpg'' = None"
  "rows (world_after other_checksum library) =
     [\<lparr>move_id = ''1'', move_entityId = ''a1'', move_pathType = Original,
       move_oldPath = ''/data/lib/u1/2023/a1.jpg'',
       move_newPath = ''/mnt/lib/u1/2024/a1.jpg''\<rparr>]"
  "asset_paths (world_after other_checksum library) (''a1'', OriginalPath) =
     Some ''/data/lib/u1/2023/a1.jpg''"
  by (simp_all add: run_simps)

lemma other_checksum_mismatch:
  "mismatch (assetInfo other_checksum) ''/data/lib/u1/2023/a1.jpg'' ''/mnt/lib/u1/2024/a1.jpg''
     [(Stat ''/data/lib/u1/2023/a1.jpg'',
       Gave (StatsOf \<lparr>stat_size = 1000, atime = 11, mtime = 12, birthtime = 12\<rparr>)),
      (Stat ''/mnt/lib/u1/2024/a1.jpg'',
       Gave (StatsOf \<lparr>stat_size = 1000, atime = 1700000000000, mtime = 1700000000000,
                       birthtime = 1700000000000\<rparr>)),
      (GetConfig, Gave (Bool True)),
      (HashFile ''/mnt/lib/u1/2024/a1.jpg'', Gave (Hash ''H''))]"
  by (simp add: mismatch_def other_checksum_def expected_size_def)

text \<open>
  C2 on two scenarios: the asset's recorded checksum, or its recorded size, is not that
  of the file. The call returns, the source is still there, the destination is gone and
  the intent remains.
\<close>

lemma other_size_trace:
  "trace (snd (moveFile mem_repos other_size (boot library))) =
     [(MkdirSync ''/mnt/lib/u1/2024'', Gave Unit),
      (GetByEntity ''a1'' Original, Gave (Found None)),
      (MoveCreate ''a1'' Original ''/data/lib/u1/2023/a1.jpg'' ''/mnt/lib/u1/2024/a1.jpg'',
       Gave (Row \<lparr>move_id = ''1'', move_entityId = ''a1'', move_pathType = Original,
                   move_oldPath = ''/data/lib/u1/2023/a1.jpg'',
                   move_newPath = ''/mnt/lib/u1/2024/a1.jpg''\<rparr>)),
      (Rename ''/data/lib/u1/2023/a1.jpg'' ''/mnt/lib/u1/2024/a1.jpg'', Threw EXDEV)] @
     (CopyFile ''/data/lib/u1/2023/a1.jpg'' ''/mnt/lib/u1/2024/a1.jpg'', Gave Unit) #
     [(Stat ''/data/lib/u1/2023/a1.jpg'',
       Gave (StatsOf \<lparr>stat_size = 1000, atime = 11, mtime = 12, birthtime = 12\<rparr>)),
      (Stat ''/mnt/lib/u1/2024/a1.jpg'',
       Gave (StatsOf \<lparr>stat_size = 1000, atime = 1700000000000, mtime = 1700000000000,
                       birthtime = 1700000000000\<rparr>))] @
     [(Unlink ''/mnt/lib/u1/2024/a1.jpg'', Gave Unit)]"
  by (simp add: run_simps)

lemma other_size_world:
  "files (world_after other_size library) ''/data/lib/u1/2023/a1.jpg'' = Some photo"
  "files (world_after other_size library) ''/mnt/lib/u1/2024/a1.jpg'' = None"
  "rows (world_after other_size library) =
     [\<lparr>move_id = ''1'', move_entityId = ''a1'', move_pathType = Original,
       move_oldPath = ''/data/lib/u1/2023/a1.jpg'',
       move_newPath = ''/mnt/lib/u1/2024/a1.jpg''\<rparr>]"
  by (simp_all add: run_simps)

lemma other_size_mismatch:
  "mismatch (assetInfo other_size) ''/data/lib/u1/2023/a1.jpg'' ''/mnt/lib/u1/2024/a1.jpg''
     [(Stat ''/data/lib/u1/2023/a1.jpg'',
       Gave (StatsOf \<lparr>stat_size = 1000, atime = 11, mtime = 12, birthtime = 12\<rparr>)),
      (Stat ''/mnt/lib/u1/2024/a1.jpg'',
       Gave (StatsOf \<lparr>stat_size = 1000, atime = 1700000000000, mtime = 1700000000000,
                       birthtime = 1700000000000\<rparr>))]"
  by (simp add: mismatch_def other_size_def expected_size_def)

theorem rejected_copy_witness:
  "fst (moveFile mem_repos other_checksum (boot library)) = Inr () \<and>
   files (world_after other_checksum library) ''/data/lib/u1/2023/a1.jpg'' = Some photo \<and>
   files (world_after other_checksum library) ''/mnt/lib/u1/2024/a1.jpg'' = None \<and>
   rows (world_after other_checksum library) \<noteq> [] \<and>
   fst (moveFile mem_repos other_size (boot library)) = Inr () \<and>
   files (world_after other_size library) ''/data/lib/u1/2023/a1.jpg'' = Some photo \<and>
   files (world_after other_size library) ''/mnt/lib/u1/2024/a1.jpg'' = None \<and>
   rows (world_after other_size library) \<noteq> []"
proof -
  have pair: "\<And>req. moveFile mem_repos req (boot library) =
      (fst (moveFile mem_repos req (boot library)), snd (moveFile mem_repos req (boot library)))"
    by simp
  have fresh: "trace (boot library) = []" by (simp add: boot_def)
  from rejected_copy [OF pair fresh other_checksum_trace other_checksum_mismatch]
  have "fst (moveFile mem_repos other_checksum (boot library)) = Inr ()" by auto
  moreover from rejected_copy [OF pair fresh other_size_trace other_size_mismatch]
  have "fst (moveFile mem_repos other_size (boot library)) = Inr ()" by auto
  ultimately show ?thesis by (simp add: other_checksum_world other_size_world)
qed

text \<open>
  C4 on two scenarios: the second call of a repeated move, whose rename fails with
  \<^verbatim>\<open>ENOENT\<close>, and the move to another volume, whose rename fails with \<^verbatim>\<open>EXDEV\<close>.
\<close>

theorem rename_failure_handling_witness:
  "fst (moveFile mem_repos same_volume (boot (world_after same_volume library))) = Inr () \<and>
   (moved_by_copy other_volume ''/data/lib/u1/2023/a1.jpg''
      (drop 4 (trace (snd (moveFile mem_repos other_volume (boot library)))))
      (fst (moveFile mem_repos other_volume (boot library))) \<or>
    copy_rejected other_volume ''/data/lib/u1/2023/a1.jpg''
      (drop 4 (trace (snd (moveFile mem_repos other_volume (boot library)))))
      (fst (moveFile mem_repos other_volume (boot library))) \<or>
    copy_aborted other_volume ''/data/lib/u1/2023/a1.jpg''
      (drop 4 (trace (snd (moveFile mem_repos other_volume (boot library)))))
      (fst (moveFile mem_repos other_volume (boot library))))"
proof -
  let ?s2 = "boot (world_after same_volume library)"
  let ?tr = "trace (snd (moveFile mem_repos other_volume (boot library)))"
  have run2: "moveFile mem_repos same_volume ?s2 =
      (fst (moveFile mem_repos same_volume ?s2), snd (moveFile mem_repos same_volume ?s2))"
    by simp
  have fresh2: "trace ?s2 = []" by (simp add: boot_def)
  have dec2: "trace (snd (moveFile mem_repos same_volume ?s2)) =
      take 3 (trace (snd (moveFile mem_repos same_volume ?s2))) @
      (Rename ''/data/lib/u1/2023/a1.jpg'' ''/data/lib/u1/2024/a1.jpg'', Threw ENOENT) # []"
    by (simp add: second_call_trace)
  have other: "code ENOENT \<noteq> Some ''EXDEV''" by (simp add: ENOENT_def)
  have run: "moveFile mem_repos other_volume (boot library) =
      (fst (moveFile mem_repos other_volume (boot library)),
       snd (moveFile mem_repos other_volume (boot library)))"
    by simp
  have fresh: "trace (boot library) = []" by (simp add: boot_def)
  have dec: "?tr = take 3 ?tr @
      (Rename ''/data/lib/u1/2023/a1.jpg'' ''/mnt/lib/u1/2024/a1.jpg'', Threw EXDEV) # drop 4 ?tr"
    by (simp add: other_volume_trace)
  have exdev: "code EXDEV = Some ''EXDEV''" by (simp add: EXDEV_def)
  from rename_failure_handling [OF run2 fresh2 dec2] rename_failure_handling [OF run fresh dec]
    other exdev
  show ?thesis by blast
qed

lemma torn_copy_result: "fst (moveFile torn_repos thumbnail_move (boot gallery)) = Inr ()"
  by (simp add: run_simps)

lemma torn_copy_trace:
  "trace (snd (moveFile torn_repos thumbnail_move (boot gallery))) =
     [(MkdirSync ''/mnt/thumbs/u1'', Gave Unit),
      (GetByEntity ''a1'' Thumbnail, Gave (Found None)),
      (MoveCreate ''a1'' Thumbnail ''/data/thumbs/u1/a1.webp'' ''/mnt/thumbs/u1/a1.webp'',
       Gave (Row \<lparr>move_id = ''1'', move_entityId = ''a1'', move_pathType = Thumbnail,
                   move_oldPath = ''/data/thumbs/u1/a1.webp'',
                   move_newPath = ''/mnt/thumbs/u1/a1.webp''\<rparr>)),
      (Rename ''/data/thumbs/u1/a1.webp'' ''/mnt/thumbs/u1/a1.webp'', Threw EXDEV),
      (CopyFile ''/data/thumbs/u1/a1.webp'' ''/mnt/thumbs/u1/a1.webp'', Gave Unit),
      (Stat ''/data/thumbs/u1/a1.webp'',
       Gave (StatsOf \<lparr>stat_size = 300, atime = 11, mtime = 12, birthtime = 12\<rparr>)),
      (Stat ''/mnt/thumbs/u1/a1.webp'',
       Gave (StatsOf \<lparr>stat_size = 300, atime = 1700000000000, mtime = 1700000000000,
                       birthtime = 1700000000000\<rparr>)),
      (GetConfig, Gave (Bool True)),
      (Stat ''/data/thumbs/u1/a1.webp'',
       Gave (StatsOf \<lparr>stat_size = 300, atime = 11, mtime = 12, birthtime = 12\<rparr>)),
      (Utimes ''/mnt/thumbs/u1/a1.webp'' 11 12, Gave Unit),
      (Unlink ''/data/thumbs/u1/a1.webp'', Gave Unit),
      (AssetUpsertFile ''a1'' FileThumbnail ''/mnt/thumbs/u1/a1.webp'', Gave Unit),
      (MoveDelete ''1'', Gave Unit)]"
  by (simp add: run_simps)

lemma torn_copy_world:
  "files (world (env (snd (moveFile torn_repos thumbnail_move (boot gallery)))))
     ''/data/thumbs/u1/a1.webp'' = None"
  "files (world (env (snd (moveFile torn_repos thumbnail_move (boot gallery)))))
     ''/mnt/thumbs/u1/a1.webp'' = Some (thumb\<lparr>f_sha1 := ''X''\<rparr>)"
  "rows (world (env (snd (moveFile torn_repos thumbnail_move (boot gallery))))) = []"
  "asset_files (world (env (snd (moveFile torn_repos thumbnail_move (boot gallery)))))
     (''a1'', FileThumbnail) = Some ''/mnt/thumbs/u1/a1.webp''"
  by (simp_all add: run_simps)

text \<open>
  C1, as the claim states it, fails. Hash verification is enabled and a thumbnail is
  moved to another volume; the request carries no asset info, as every request made by
  \<^verbatim>\<open>moveAssetImage\<close>, \<^verbatim>\<open>moveAssetVideo\<close> and \<^verbatim>\<open>movePersonFile\<close>. The copy writes the right
  number of bytes with other content. The run reads the configuration, which says that
  hashes are verified, and reads no hash: the source is deleted after the comparison of
  the sizes alone, the move is committed, and the only file left has the content \<open>X\<close>
  where the source had \<open>T\<close>.
\<close>

theorem unhashed_removal_counterexample:
  "hashVerificationEnabled gallery \<and>
   files gallery ''/data/thumbs/u1/a1.webp'' = Some thumb \<and> f_sha1 thumb = ''T'' \<and>
   fst (moveFile torn_repos thumbnail_move (boot gallery)) = Inr () \<and>
   trace (snd (moveFile torn_repos thumbnail_move (boot gallery))) =
     [(MkdirSync ''/mnt/thumbs/u1'', Gave Unit),
      (GetByEntity ''a1'' Thumbnail, Gave (Found None)),
      (MoveCreate ''a1'' Thumbnail ''/data/thumbs/u1/a1.webp'' ''/mnt/thumbs/u1/a1.webp'',
       Gave (Row \<lparr>move_id = ''1'', move_entityId = ''a1'', move_pathType = Thumbnail,
                   move_oldPath = ''/data/thumbs/u1/a1.webp'',
                   move_newPath = ''/mnt/thumbs/u1/a1.webp''\<rparr>)),
      (Rename ''/data/thumbs/u1/a1.webp'' ''/mnt/thumbs/u1/a1.webp'', Threw EXDEV),
      (CopyFile ''/data/thumbs/u1/a1.webp'' ''/mnt/thumbs/u1/a1.webp'', Gave Unit),
      (Stat ''/data/thumbs/u1/a1.webp'',
       Gave (StatsOf \<lparr>stat_size = 300, atime = 11, mtime = 12, birthtime = 12\<rparr>)),
      (Stat ''/mnt/thumbs/u1/a1.webp'',
       Gave (StatsOf \<lparr>stat_size = 300, atime = 1700000000000, mtime = 1700000000000,
                       birthtime = 1700000000000\<rparr>)),
      (GetConfig, Gave (Bool True)),
      (Stat ''/data/thumbs/u1/a1.webp'',
       Gave (StatsOf \<lparr>stat_size = 300, atime = 11, mtime = 12, birthtime = 12\<rparr>)),
      (Utimes ''/mnt/thumbs/u1/a1.webp'' 11 12, Gave Unit),
      (Unlink ''/data/thumbs/u1/a1.webp'', Gave Unit),
      (AssetUpsertFile ''a1'' FileThumbnail ''/mnt/thumbs/u1/a1.webp'', Gave Unit),
      (MoveDelete ''1'', Gave Unit)] \<and>
   files (world (env (snd (moveFile torn_repos thumbnail_move (boot gallery)))))
     ''/data/thumbs/u1/a1.webp'' = None \<and>
   files (world (env (snd (moveFile torn_repos thumbnail_move (boot gallery)))))
     ''/mnt/thumbs/u1/a1.webp'' =
     Some \<lparr>f_size = 300, f_sha1 = ''X'', f_atime = 11, f_mtime = 12\<rparr> \<and>
   rows (world (env (snd (moveFile torn_repos thumbnail_move (boot gallery))))) = [] \<and>
   asset_files (world (env (snd (moveFile torn_repos thumbnail_move (boot gallery)))))
     (''a1'', FileThumbnail) = Some ''/mnt/thumbs/u1/a1.webp''"
  by (simp add: torn_copy_result torn_copy_trace torn_copy_world)
     (simp add: gallery_def library_def thumb_def)

text \<open>
  C1, amended, on the move of an original to another volume: the eleven events before
  the deletion of the source end with the failed rename, the copy, a verification that
  passed, here with the hash, and the timestamps.
\<close>

theorem removals_accounted_witness:
  "\<exists>pre e vs st.
     take 11 (trace (snd (moveFile mem_repos other_volume (boot library)))) =
       pre @ (Rename ''/data/lib/u1/2023/a1.jpg'' ''/mnt/lib/u1/2024/a1.jpg'', Threw e) #
       (CopyFile ''/data/lib/u1/2023/a1.jpg'' ''/mnt/lib/u1/2024/a1.jpg'', Gave Unit) # vs @
       [(Stat ''/data/lib/u1/2023/a1.jpg'', Gave (StatsOf st)),
        (Utimes ''/mnt/lib/u1/2024/a1.jpg'' (atime st) (mtime st), Gave Unit)] \<and>
     code e = Some ''EXDEV'' \<and>
     verified (Some the_info) ''/data/lib/u1/2023/a1.jpg'' ''/mnt/lib/u1/2024/a1.jpg'' vs"
proof -
  let ?tr = "trace (snd (moveFile mem_repos other_volume (boot library)))"
  have run: "moveFile mem_repos other_volume (boot library) =
      (fst (moveFile mem_repos other_volume (boot library)),
       snd (moveFile mem_repos other_volume (boot library)))"
    by simp
  have fresh: "trace (boot library) = []" by (simp add: boot_def)
  have dec: "?tr = take 11 ?tr @ (Unlink ''/data/lib/u1/2023/a1.jpg'', Gave Unit) # drop 12 ?tr"
    by (simp add: other_volume_trace)
  have rem: "removing (Unlink ''/data/lib/u1/2023/a1.jpg'')" by simp
  have np: "newPath other_volume = ''/mnt/lib/u1/2024/a1.jpg''"
    "assetInfo other_volume = Some the_info"
    by (simp_all add: other_volume_def)
  from removals_accounted [OF run fresh dec rem] show ?thesis
    unfolding np by auto
qed

text \<open>
  C7, as the claim states it, fails. The first call of the scenario succeeds; a second
  call with the same arguments checks the folder, reads the intent store, creates a new
  intent and tries the rename again, which fails because the source has moved; the intent
  it created stays in the store.
\<close>

theorem repeated_call_counterexample:
  "fst (moveFile mem_repos same_volume (boot library)) = Inr () \<and>
   trace (snd (moveFile mem_repos same_volume (boot (world_after same_volume library)))) =
     [(MkdirSync ''/data/lib/u1/2024'', Gave Unit),
      (GetByEntity ''a1'' Original, Gave (Found None)),
      (MoveCreate ''a1'' Original ''/data/lib/u1/2023/a1.jpg'' ''/data/lib/u1/2024/a1.jpg'',
       Gave (Row \<lparr>move_id = ''2'', move_entityId = ''a1'', move_pathType = Original,
                   move_oldPath = ''/data/lib/u1/2023/a1.jpg'',
                   move_newPath = ''/data/lib/u1/2024/a1.jpg''\<rparr>)),
      (Rename ''/data/lib/u1/2023/a1.jpg'' ''/data/lib/u1/2024/a1.jpg'', Threw ENOENT)] \<and>
   syscalls (env (snd (moveFile mem_repos same_volume (boot (world_after same_volume library))))) =
     [(FsExistsSync ''/data/lib/u1/2024'', None),
      (FsRename ''/data/lib/u1/2023/a1.jpg'' ''/data/lib/u1/2024/a1.jpg'', Some ENOENT)] \<and>
   rows (world_after same_volume library) = [] \<and>
   rows (world_after same_volume (world_after same_volume library)) \<noteq> []"
  by (simp add: first_call_result second_call_trace second_call_syscalls first_call_world
      second_call_rows)

text \<open>
  C7, amended. A call whose \<^verbatim>\<open>oldPath\<close> is absent, empty or equal to \<^verbatim>\<open>newPath\<close> performs
  no I/O at all: it returns at once and leaves the world, the trace and the logs as they
  were. In particular, after a first call has completed successfully, a second call whose
  \<^verbatim>\<open>oldPath\<close> is the path just committed performs no I/O.
\<close>

theorem moveFile_noop:
  assumes "falsy (oldPath req) \<or> oldPath req = Some (newPath req)"
  shows "moveFile R req s = (Inr (), s)"
  using assms by (simp add: moveFile_def return_def)

text \<open>
  C7, amended, on the scenario: the second call passes the path the asset now records.
\<close>

theorem moveFile_noop_witness:
  "moveFile mem_repos
     (same_volume\<lparr>oldPath := asset_paths (world_after same_volume library) (''a1'', OriginalPath)\<rparr>)
     (boot (world_after same_volume library)) =
   (Inr (), boot (world_after same_volume library))"
proof -
  have "oldPath (same_volume\<lparr>oldPath := asset_paths (world_after same_volume library) (''a1'', OriginalPath)\<rparr>) =
        Some (newPath (same_volume\<lparr>oldPath := asset_paths (world_after same_volume library) (''a1'', OriginalPath)\<rparr>))"
    unfolding first_call_world by (simp add: same_volume_def)
  then show ?thesis using moveFile_noop by blast
qed

lemma crashed_result:
  "fst (moveFile mem_repos same_volume (boot crashed_after_rename)) = Inl ENOENT"
  by (simp add: run_simps)

lemma crashed_trace:
  "trace (snd (moveFile mem_repos same_volume (boot crashed_after_rename))) =
     [(MkdirSync ''/data/lib/u1/2024'', Gave Unit),
      (GetByEntity ''a1'' Original, Gave (Found (Some the_intent))),
      (CheckFileExists ''/data/lib/u1/2023/a1.jpg'', Gave (Bool False)),
      (CheckFileExists ''/data/lib/u1/2024/a1.jpg'', Gave (Bool True)),
      (Stat ''/data/lib/u1/2023/a1.jpg'', Threw ENOENT)]"
  by (simp add: run_simps)

lemma crashed_world:
  "rows (world_after same_volume crashed_after_rename) = [the_intent]"
  "asset_paths (world_after same_volume crashed_after_rename) (''a1'', OriginalPath) =
     Some ''/data/lib/u1/2023/a1.jpg''"
  by (simp_all add: run_simps)

lemma crashed_file:
  "fst (mem_stat ''/data/lib/u1/2024/a1.jpg'' crashed_after_rename) =
     Inr \<lparr>stat_size = sizeInBytes the_info, atime = 11, mtime = 12, birthtime = 12\<rparr>"
  "fst (mem_hashFile ''/data/lib/u1/2024/a1.jpg'' crashed_after_rename) = Inr (checksum the_info)"
  by (simp_all add: mem_defs scenario_defs)

text \<open>
  C3 does not hold on the code. After a crash between the rename and the commit, the
  file is at the new path only, with the expected size and checksum. The recovery finds
  the intent and the file at the new location and starts the verification, whose first
  statement reads the old path, which is missing: the call is rejected with \<^verbatim>\<open>ENOENT\<close>,
  the new path is not persisted and the intent is not deleted.
\<close>

theorem recovery_at_new_location_throws:
  "rows crashed_after_rename = [the_intent] \<and>
   files crashed_after_rename (move_oldPath the_intent) = None \<and>
   fst (mem_stat (move_newPath the_intent) crashed_after_rename) =
     Inr \<lparr>stat_size = sizeInBytes the_info, atime = 11, mtime = 12, birthtime = 12\<rparr> \<and>
   fst (mem_hashFile (move_newPath the_intent) crashed_after_rename) = Inr (checksum the_info) \<and>
   fst (moveFile mem_repos same_volume (boot crashed_after_rename)) = Inl ENOENT \<and>
   trace (snd (moveFile mem_repos same_volume (boot crashed_after_rename))) =
     [(MkdirSync ''/data/lib/u1/2024'', Gave Unit),
      (GetByEntity ''a1'' Original, Gave (Found (Some the_intent))),
      (CheckFileExists ''/data/lib/u1/2023/a1.jpg'', Gave (Bool False)),
      (CheckFileExists ''/data/lib/u1/2024/a1.jpg'', Gave (Bool True)),
      (Stat ''/data/lib/u1/2023/a1.jpg'', Threw ENOENT)] \<and>
   rows (world_after same_volume crashed_after_rename) = [the_intent] \<and>
   asset_paths (world_after same_volume crashed_after_rename) (''a1'', OriginalPath) =
     Some ''/data/lib/u1/2023/a1.jpg''"
  using crashed_file
  by (simp add: crashed_result crashed_trace crashed_world)
     (simp add: crashed_after_rename_def the_intent_def library_def)

lemma tempFile_by_clock_and_basename:
  assumes "date_now sys w = date_now sys w'" "basename p = basename p'"
  shows "writeFile_tempFile sys w p = writeFile_tempFile sys w' p'"
    and "withLocalPath_tempFile sys w p = withLocalPath_tempFile sys w' p'"
  using assms by (simp_all add: writeFile_tempFile_def withLocalPath_tempFile_def)

text \<open>
  C9 does not hold on the code. The temporary name is made of the millisecond clock and
  the last segment of the path, so two invocations in the same millisecond receive the
  same temporary file when they are on the same logical path, and also when they are on
  two paths with the same file name.
\<close>

theorem tempFile_collision:
  "writeFile_tempFile mem_sys library ''s3.us-east-1.amazonaws.com/photos/u1/a.jpg'' =
     ''/tmp/immich-write-1700000000000-a.jpg'' \<and>
   writeFile_tempFile mem_sys library ''s3.us-east-1.amazonaws.com/photos/u2/a.jpg'' =
     ''/tmp/immich-write-1700000000000-a.jpg'' \<and>
   withLocalPath_tempFile mem_sys library ''s3.us-east-1.amazonaws.com/photos/u1/a.jpg'' =
     ''/tmp/immich-1700000000000-a.jpg'' \<and>
   withLocalPath_tempFile mem_sys library ''s3.us-east-1.amazonaws.com/photos/u2/a.jpg'' =
     ''/tmp/immich-1700000000000-a.jpg'' \<and>
   isRemote ''s3.us-east-1.amazonaws.com/photos/u1/a.jpg'' \<and>
   isRemote ''s3.us-east-1.amazonaws.com/photos/u2/a.jpg''"
  by (simp add: writeFile_tempFile_def withLocalPath_tempFile_def basename_def mem_sys_def
      library_def show_nat.simps path_simps startsWith_def str_includes_def)

lemma remote_paths:
  "isRemote ''s3.us-east-1.amazonaws.com/photos/u1/a.jpg''"
  "isRemote ''s3.us-east-1.amazonaws.com/photos/u1/2024/a.jpg''"
  "isRemote ''s3.us-east-1.amazonaws.com/archive/u1/a.jpg''"
  "isRemote ''minio.local/photos/u1/a.jpg''"
  "\<not> isRemote ''/data/lib/u1/2023/a1.jpg''"
  "\<not> isRemote ''/data/lib/u1/2024/a1.jpg''"
  by (simp_all add: path_simps startsWith_def str_includes_def)

lemma remote_parse:
  "parseCloudPath ''s3.us-east-1.amazonaws.com/photos/u1/a.jpg'' =
     Inr \<lparr>host = ''s3.us-east-1.amazonaws.com'', bucket = ''photos'', key = ''u1/a.jpg''\<rparr>"
  "parseCloudPath ''s3.us-east-1.amazonaws.com/photos/u1/2024/a.jpg'' =
     Inr \<lparr>host = ''s3.us-east-1.amazonaws.com'', bucket = ''photos'', key = ''u1/2024/a.jpg''\<rparr>"
  "parseCloudPath ''s3.us-east-1.amazonaws.com/archive/u1/a.jpg'' =
     Inr \<lparr>host = ''s3.us-east-1.amazonaws.com'', bucket = ''archive'', key = ''u1/a.jpg''\<rparr>"
  "parseCloudPath ''minio.local/photos/u1/a.jpg'' =
     Inr \<lparr>host = ''minio.local'', bucket = ''photos'', key = ''u1/a.jpg''\<rparr>"
  by (simp_all add: parseCloudPath_def)

lemma remote_rename_syscalls:
  "syscalls (snd (rename mem_sys ''s3.us-east-1.amazonaws.com/photos/u1/a.jpg''
       ''s3.us-east-1.amazonaws.com/photos/u1/2024/a.jpg'' (repo_boot bucket_world))) =
    [(S3Send aws_client (CopyObjectCommand ''photos'' ''photos/u1/a.jpg'' ''u1/2024/a.jpg'' None),
      None),
     (S3Send aws_client (DeleteObjectCommand ''photos'' ''u1/a.jpg''), None)]"
  by (simp add: run_simps path_simps)

lemma remote_rename_world:
  "fst (rename mem_sys ''s3.us-east-1.amazonaws.com/photos/u1/a.jpg''
       ''s3.us-east-1.amazonaws.com/photos/u1/2024/a.jpg'' (repo_boot bucket_world)) = Inr ()"
  "objects (world (snd (rename mem_sys ''s3.us-east-1.amazonaws.com/photos/u1/a.jpg''
       ''s3.us-east-1.amazonaws.com/photos/u1/2024/a.jpg'' (repo_boot bucket_world))))
     (''https://s3.us-east-1.amazonaws.com'', ''photos'', ''u1/a.jpg'') = None"
  "objects (world (snd (rename mem_sys ''s3.us-east-1.amazonaws.com/photos/u1/a.jpg''
       ''s3.us-east-1.amazonaws.com/photos/u1/2024/a.jpg'' (repo_boot bucket_world))))
     (''https://s3.us-east-1.amazonaws.com'', ''photos'', ''u1/2024/a.jpg'') =
     Some (stored\<lparr>LastModified := Some 1700000000000\<rparr>)"
  by (simp_all add: run_simps path_simps)

lemma two_hosts_paths:
  "isRemote ''s3.wasabisys.com/photos/u1/a.jpg''"
  "isRemote ''s3.us-east-1.amazonaws.com/photos/u1/2024/a.jpg''"
  "parseCloudPath ''s3.wasabisys.com/photos/u1/a.jpg'' =
     Inr \<lparr>host = ''s3.wasabisys.com'', bucket = ''photos'', key = ''u1/a.jpg''\<rparr>"
  "parseCloudPath ''s3.us-east-1.amazonaws.com/photos/u1/2024/a.jpg'' =
     Inr \<lparr>host = ''s3.us-east-1.amazonaws.com'', bucket = ''photos'', key = ''u1/2024/a.jpg''\<rparr>"
  by (simp_all add: path_simps startsWith_def str_includes_def)

lemma two_hosts_result:
  "fst (rename mem_sys ''s3.wasabisys.com/photos/u1/a.jpg''
          ''s3.us-east-1.amazonaws.com/photos/u1/2024/a.jpg'' (repo_boot two_stores)) = Inr ()"
  by (simp add: run_simps path_simps)

lemma two_hosts_syscalls:
  "syscalls (snd (rename mem_sys ''s3.wasabisys.com/photos/u1/a.jpg''
          ''s3.us-east-1.amazonaws.com/photos/u1/2024/a.jpg'' (repo_boot two_stores))) =
     [(S3Send aws_client
         (CopyObjectCommand ''photos'' ''photos/u1/a.jpg'' ''u1/2024/a.jpg'' None), None),
      (S3Send wasabi_client (DeleteObjectCommand ''photos'' ''u1/a.jpg''), None)]"
  by (simp add: run_simps path_simps)

lemma two_hosts_world:
  "objects (world (snd (rename mem_sys ''s3.wasabisys.com/photos/u1/a.jpg''
          ''s3.us-east-1.amazonaws.com/photos/u1/2024/a.jpg'' (repo_boot two_stores))))
     (''https://s3.wasabisys.com'', ''photos'', ''u1/a.jpg'') = None"
  "objects (world (snd (rename mem_sys ''s3.wasabisys.com/photos/u1/a.jpg''
          ''s3.us-east-1.amazonaws.com/photos/u1/2024/a.jpg'' (repo_boot two_stores))))
     (''https://s3.us-east-1.amazonaws.com'', ''photos'', ''u1/2024/a.jpg'') =
     Some (other_object\<lparr>LastModified := Some 1700000000000\<rparr>)"
  by (simp_all add: run_simps path_simps)

text \<open>
  C5 does not hold on the code. \<^verbatim>\<open>rename\<close> compares the bucket names of two remote paths
  and not their hosts, so the bucket \<^verbatim>\<open>photos\<close> at Wasabi and the bucket \<^verbatim>\<open>photos\<close> at AWS,
  which are two buckets, pass for one. The request is not rejected: the copy is sent to
  the target's host, where \<^verbatim>\<open>CopySource\<close> names another object, and the delete to the
  source's host. The call returns normally, the source object is gone from its store and
  the target key holds the 7 bytes of the other object.
\<close>

theorem rename_between_hosts_loses_source:
  "parseCloudPath ''s3.wasabisys.com/photos/u1/a.jpg'' =
     Inr \<lparr>host = ''s3.wasabisys.com'', bucket = ''photos'', key = ''u1/a.jpg''\<rparr> \<and>
   parseCloudPath ''s3.us-east-1.amazonaws.com/photos/u1/2024/a.jpg'' =
     Inr \<lparr>host = ''s3.us-east-1.amazonaws.com'', bucket = ''photos'', key = ''u1/2024/a.jpg''\<rparr> \<and>
   isRemote ''s3.wasabisys.com/photos/u1/a.jpg'' \<and>
   isRemote ''s3.us-east-1.amazonaws.com/photos/u1/2024/a.jpg'' \<and>
   objects two_stores (''https://s3.wasabisys.com'', ''photos'', ''u1/a.jpg'') = Some stored \<and>
   ContentLength stored = Some 1000 \<and>
   fst (rename mem_sys ''s3.wasabisys.com/photos/u1/a.jpg''
          ''s3.us-east-1.amazonaws.com/photos/u1/2024/a.jpg'' (repo_boot two_stores)) = Inr () \<and>
   syscalls (snd (rename mem_sys ''s3.wasabisys.com/photos/u1/a.jpg''
          ''s3.us-east-1.amazonaws.com/photos/u1/2024/a.jpg'' (repo_boot two_stores))) =
     [(S3Send aws_client
         (CopyObjectCommand ''photos'' ''photos/u1/a.jpg'' ''u1/2024/a.jpg'' None), None),
      (S3Send wasabi_client (DeleteObjectCommand ''photos'' ''u1/a.jpg''), None)] \<and>
   endpoint aws_client = ''https://s3.us-east-1.amazonaws.com'' \<and>
   endpoint wasabi_client = ''https://s3.wasabisys.com'' \<and>
   objects (world (snd (rename mem_sys ''s3.wasabisys.com/photos/u1/a.jpg''
          ''s3.us-east-1.amazonaws.com/photos/u1/2024/a.jpg'' (repo_boot two_stores))))
     (''https://s3.wasabisys.com'', ''photos'', ''u1/a.jpg'') = None \<and>
   objects (world (snd (rename mem_sys ''s3.wasabisys.com/photos/u1/a.jpg''
          ''s3.us-east-1.amazonaws.com/photos/u1/2024/a.jpg'' (repo_boot two_stores))))
     (''https://s3.us-east-1.amazonaws.com'', ''photos'', ''u1/2024/a.jpg'') =
     Some \<lparr>ContentLength = Some 7, LastModified = Some 1700000000000, Metadata = None\<rparr>"
  by (simp add: two_hosts_paths two_hosts_result two_hosts_syscalls two_hosts_world)
     (simp add: two_stores_def library_def stored_def other_object_def aws_client_def
        wasabi_client_def)

text \<open>
  When the target's host does not hold the source key the copy fails there, and the
  source is not deleted; the request has still left the process.
\<close>

lemma rename_across_hosts:
  "syscalls (snd (rename mem_sys ''s3.us-east-1.amazonaws.com/photos/u1/a.jpg''
       ''s3.eu-west-1.amazonaws.com/photos/u1/a.jpg'' (repo_boot bucket_world))) =
    [(S3Send (aws_client\<lparr>region := ''eu-west-1'',
                          endpoint := ''https://s3.eu-west-1.amazonaws.com''\<rparr>)
        (CopyObjectCommand ''photos'' ''photos/u1/a.jpg'' ''u1/a.jpg'' None),
      Some (Error ''NoSuchKey''))]"
  by (simp add: run_simps path_simps)

text \<open>
  \<open>rename_dispatch\<close> on four pairs of paths: two local paths, two keys of one bucket, two
  bucket names, and a local path with a remote one.
\<close>

theorem rename_dispatch_witness:
  "syscalls (snd (rename mem_sys ''/data/lib/u1/2023/a1.jpg'' ''/data/lib/u1/2024/a1.jpg''
       (repo_boot library))) =
     [(FsRename ''/data/lib/u1/2023/a1.jpg'' ''/data/lib/u1/2024/a1.jpg'',
       case fst (rename mem_sys ''/data/lib/u1/2023/a1.jpg'' ''/data/lib/u1/2024/a1.jpg''
                  (repo_boot library)) of Inl e \<Rightarrow> Some e | Inr u \<Rightarrow> None)] \<and>
   (\<exists>evs. syscalls (snd (rename mem_sys ''s3.us-east-1.amazonaws.com/photos/u1/a.jpg''
              ''s3.us-east-1.amazonaws.com/photos/u1/2024/a.jpg'' (repo_boot bucket_world))) = evs \<and>
      rename_remote_run
        \<lparr>host = ''s3.us-east-1.amazonaws.com'', bucket = ''photos'', key = ''u1/a.jpg''\<rparr>
        \<lparr>host = ''s3.us-east-1.amazonaws.com'', bucket = ''photos'', key = ''u1/2024/a.jpg''\<rparr>
        evs
        (fst (rename mem_sys ''s3.us-east-1.amazonaws.com/photos/u1/a.jpg''
                ''s3.us-east-1.amazonaws.com/photos/u1/2024/a.jpg'' (repo_boot bucket_world)))) \<and>
   snd (rename mem_sys ''s3.us-east-1.amazonaws.com/photos/u1/a.jpg''
          ''s3.us-east-1.amazonaws.com/archive/u1/a.jpg'' (repo_boot bucket_world)) =
     repo_boot bucket_world \<and>
   (\<exists>e. fst (rename mem_sys ''s3.us-east-1.amazonaws.com/photos/u1/a.jpg''
          ''s3.us-east-1.amazonaws.com/archive/u1/a.jpg'' (repo_boot bucket_world)) = Inl e) \<and>
   snd (rename mem_sys ''/data/lib/u1/2023/a1.jpg''
          ''s3.us-east-1.amazonaws.com/photos/u1/a.jpg'' (repo_boot bucket_world)) =
     repo_boot bucket_world \<and>
   (\<exists>e. fst (rename mem_sys ''/data/lib/u1/2023/a1.jpg''
          ''s3.us-east-1.amazonaws.com/photos/u1/a.jpg'' (repo_boot bucket_world)) = Inl e)"
proof -
  have pair: "\<And>src dst s. rename mem_sys src dst s =
      (fst (rename mem_sys src dst s), snd (rename mem_sys src dst s))"
    by simp
  have start: "syscalls (repo_boot library) = []" "syscalls (repo_boot bucket_world) = []"
    by (simp_all add: repo_boot_def)
  have ok: "\<And>w. cache_ok (repo_boot w)"
    by (simp add: cache_ok_def repo_boot_def)
  from rename_dispatch [OF pair [of "''/data/lib/u1/2023/a1.jpg''" "''/data/lib/u1/2024/a1.jpg''"
        "repo_boot library"] ok]
    rename_dispatch [OF pair [of "''s3.us-east-1.amazonaws.com/photos/u1/a.jpg''"
        "''s3.us-east-1.amazonaws.com/photos/u1/2024/a.jpg''" "repo_boot bucket_world"] ok]
    rename_dispatch [OF pair [of "''s3.us-east-1.amazonaws.com/photos/u1/a.jpg''"
        "''s3.us-east-1.amazonaws.com/archive/u1/a.jpg''" "repo_boot bucket_world"] ok]
    rename_dispatch [OF pair [of "''/data/lib/u1/2023/a1.jpg''"
        "''s3.us-east-1.amazonaws.com/photos/u1/a.jpg''" "repo_boot bucket_world"] ok]
  show ?thesis
    by (simp add: remote_paths remote_parse start)
qed

text \<open>
  C10 on two remote paths: an endpoint that is not supported, and a supported endpoint
  whose credentials are not in the environment.
\<close>

theorem checkFileExists_never_throws_witness:
  "checkFileExists mem_sys ''minio.local/photos/u1/a.jpg'' 0 (repo_boot bucket_world) =
     (Inr False, repo_boot bucket_world) \<and>
   stat mem_sys ''minio.local/photos/u1/a.jpg'' (repo_boot bucket_world) =
     (Inl (Error (''Unsupported S3 endpoint: minio.local. Supported providers: '' @
        ''Tigris (fly.storage.tigris.dev, t3.storage.dev), Wasabi (*.wasabisys.com), '' @
        ''AWS S3 (*.amazonaws.com)'')), repo_boot bucket_world) \<and>
   checkFileExists mem_sys ''s3.us-east-1.amazonaws.com/photos/u1/a.jpg'' 0 (repo_boot library) =
     (Inr False, repo_boot library) \<and>
   stat mem_sys ''s3.us-east-1.amazonaws.com/photos/u1/a.jpg'' (repo_boot library) =
     (Inl (Error (''AWS credentials not found for endpoint: s3.us-east-1.amazonaws.com. '' @
        ''Please set the appropriate environment variables for this storage provider.'')),
      repo_boot library)"
proof -
  have c1: "getS3Client mem_sys ''minio.local'' (repo_boot bucket_world) =
      (Inl (Error (''Unsupported S3 endpoint: minio.local. Supported providers: '' @
         ''Tigris (fly.storage.tigris.dev, t3.storage.dev), Wasabi (*.wasabisys.com), '' @
         ''AWS S3 (*.amazonaws.com)'')), repo_boot bucket_world)"
    by (simp add: getS3Client_def getS3Credentials_def repo_boot_def endsWith_def)
  have c2: "getS3Client mem_sys ''s3.us-east-1.amazonaws.com'' (repo_boot library) =
      (Inl (Error (''AWS credentials not found for endpoint: s3.us-east-1.amazonaws.com. '' @
         ''Please set the appropriate environment variables for this storage provider.'')),
       repo_boot library)"
    by (simp add: getS3Client_def getS3Credentials_def repo_boot_def endsWith_def mem_sys_def
        library_def falsy_def regionOf_def Let_def)
  from checkFileExists_never_throws [of mem_sys "''minio.local/photos/u1/a.jpg''" 0
        "repo_boot bucket_world"]
    checkFileExists_never_throws [of mem_sys "''s3.us-east-1.amazonaws.com/photos/u1/a.jpg''" 0
        "repo_boot library"]
    c1 c2
  show ?thesis by (simp add: remote_paths remote_parse)
qed

end
